theory Spec2Isabelle
  imports Complex_Main
begin

section \<open>Python values\<close>

text \<open>
  A Python \<open>str\<close> is a sequence of Unicode code points, so it is modelled as a list of
  natural numbers (one per code point).  ASCII literals of the source are written through
  \<open>ascii\<close>; the Chinese literals are spelled out code point by code point.
\<close>

type_synonym pystr = "nat list"

definition ascii :: "string \<Rightarrow> pystr" where
  "ascii s = map of_char s"

text \<open>
  Scores are Python floats.  They are modelled by the rational numbers they denote: the
  comparison \<open>>=\<close> of two floats is the comparison of their values, and the sums and the
  division by 5 are taken exactly (the binary rounding error of each operation, and NaN,
  are outside the model).  \<open>round(x, 1)\<close> rounds to one decimal, ties to even.
\<close>

definition round_half_even :: "rat \<Rightarrow> int" where
  "round_half_even x =
     (let f = \<lfloor>x\<rfloor>; d = x - of_int f
      in if d < 1 / 2 then f else if 1 / 2 < d then f + 1 else if even f then f else f + 1)"

definition py_round1 :: "rat \<Rightarrow> rat" where
  "py_round1 x = of_int (round_half_even (x * 10)) / 10"

section \<open>Artifact scoring (plugins/genshin/player\_cards.py, class Artifact)\<close>

text \<open>\<open>Artifact.get_score_class\<close>: the dictionary and its \<open>mapping.get(label, default)\<close>.\<close>

definition score_class_mapping :: "(pystr \<times> pystr) list" where
  "score_class_mapping =
     [(ascii ''D'', ascii ''text-neutral-400''),
      (ascii ''C'', ascii ''text-neutral-200''),
      (ascii ''B'', ascii ''text-violet-400''),
      (ascii ''A'', ascii ''text-violet-400''),
      (ascii ''S'', ascii ''text-yellow-400''),
      (ascii ''SS'', ascii ''text-yellow-400''),
      (ascii ''SSS'', ascii ''text-yellow-400''),
      (ascii ''ACE'', ascii ''text-red-500''),
      (ascii ''ACE'' @ [178], ascii ''text-red-500'')]"

definition get_score_class :: "pystr \<Rightarrow> pystr" where
  "get_score_class label =
     (case map_of score_class_mapping label of
        Some c \<Rightarrow> c
      | None \<Rightarrow> ascii ''text-neutral-400'')"

text \<open>
  The class \<open>Artifact\<close>: the wrapped equipment and the four score fields, with the
  defaults of the class body (\<open>score = 0\<close>, \<open>score_label = "E"\<close>, \<open>score_class = ""\<close>).
\<close>

record 'e Artifact =
  equipment :: 'e
  score :: rat
  score_label :: pystr
  score_class :: pystr
  substat_scores :: "rat list"

text \<open>The tuple of (label, threshold) pairs the loop of \<open>Artifact.__init__\<close> runs over.\<close>

definition artifact_grade_table :: "(pystr \<times> rat) list" where
  "artifact_grade_table =
     [(ascii ''D'', 10),
      (ascii ''C'', 16.5),
      (ascii ''B'', 23.1),
      (ascii ''A'', 29.7),
      (ascii ''S'', 36.3),
      (ascii ''SS'', 42.9),
      (ascii ''SSS'', 49.5),
      (ascii ''ACE'', 56.1),
      (ascii ''ACE'' @ [178], 66)]"

text \<open>
  One iteration of \<open>for r in (...): if self.score >= r[1]: ...\<close>: both \<open>score_label\<close> and
  \<open>score_class\<close> are assigned inside the \<open>if\<close>, and only there.
\<close>

definition artifact_grade_step :: "pystr \<times> rat \<Rightarrow> 'e Artifact \<Rightarrow> 'e Artifact" where
  "artifact_grade_step r a =
     (if snd r \<le> score a
      then a\<lparr>score_label := fst r, score_class := get_score_class (fst r)\<rparr>
      else a)"

definition Artifact_init :: "'e \<Rightarrow> rat list \<Rightarrow> 'e Artifact" where
  "Artifact_init e ss =
     (let a0 = \<lparr>equipment = e, score = 0, score_label = ascii ''E'', score_class = [],
                substat_scores = ss\<rparr>;
          a1 = fold (\<lambda>s a. a\<lparr>score := score a + s\<rparr>) ss a0;
          a2 = a1\<lparr>score := py_round1 (score a1)\<rparr>
      in fold artifact_grade_step artifact_grade_table a2)"

text \<open>
  The letter grade of a total: the label the loop of \<open>Artifact.__init__\<close> leaves on an
  artifact whose (already rounded) score is \<open>x\<close> and whose label and class still hold
  their defaults.
\<close>

definition grade :: "rat \<Rightarrow> pystr" where
  "grade x =
     score_label (fold artifact_grade_step artifact_grade_table
       \<lparr>equipment = (), score = x, score_label = ascii ''E'', score_class = [],
        substat_scores = []\<rparr>)"

text \<open>The rank of a label in the ascending scale, \<open>E\<close> lowest.\<close>

definition grade_scale :: "pystr list" where
  "grade_scale = ascii ''E'' # map fst artifact_grade_table"

fun index_of :: "'a \<Rightarrow> 'a list \<Rightarrow> nat" where
  "index_of x [] = 0"
| "index_of x (y # ys) = (if x = y then 0 else Suc (index_of x ys))"

definition grade_rank :: "pystr \<Rightarrow> nat" where
  "grade_rank l = index_of l grade_scale"

section \<open>Exceptions\<close>

text \<open>
  The exception classes the plugin names in its \<open>except\<close> clauses (spelled as the source
  spells them), and the built-in ones its own code can raise.  A value of \<open>exn + 'a\<close> is a
  call that raised (\<open>Inl\<close>) or returned (\<open>Inr\<close>).  Each constructor stands for the
  exceptions that the \<open>except\<close> clause of that class is the first to match.
\<close>

datatype exn =
    AioHttpTimeoutException
  | EnkaServerRateLimit
  | EnkaServerMaintanance
  | EnkaServerError
  | EnkaServerUnknown
  | EnkaPlayerNotFound
  | VaildateUIDError
  | HTTPException
  | ValueError
  | TypeError
  | IndexError
  | AttributeError
  | ValidationError
  | ConnectionError

section \<open>Profile data and the objects a render mutates\<close>

text \<open>
  The image objects of a character (\<open>c.image.banner\<close>, \<open>item.icon\<close>, \<open>item.detail.icon\<close>)
  and the exploration entries of the statistics page are mutable Python objects that
  several owners can share, so they live in an explicit heap: an address is an index into
  the list of objects.  Everything else the plugin only reads and is kept as plain values.
\<close>

type_synonym addr = nat

datatype obj =
    Icon pystr  \<comment> \<open>an image object and its \<open>url\<close>\<close>
  | Exploration pystr pystr  \<comment> \<open>an exploration entry: its \<open>icon\<close> and its \<open>cover\<close>\<close>

type_synonym heap = "obj list"

datatype EquipmentsType = ARTIFACT | WEAPON

record 's Equipments =
  equip_type :: EquipmentsType  \<comment> \<open>\<open>type\<close>\<close>
  detail_icon :: addr  \<comment> \<open>\<open>detail.icon\<close>\<close>
  detail_substats :: "'s list"  \<comment> \<open>\<open>detail.substats\<close>\<close>

record 's CharacterInfo =
  name :: pystr
  image_banner :: addr  \<comment> \<open>\<open>image.banner\<close>\<close>
  skills :: "addr list"  \<comment> \<open>the \<open>icon\<close> of each skill\<close>
  constellations :: "addr list"  \<comment> \<open>the \<open>icon\<close> of each constellation\<close>
  equipments :: "'s Equipments list"

record 's EnkaNetworkResponse =
  response_uid :: int  \<comment> \<open>\<open>uid\<close>\<close>
  characters :: "'s CharacterInfo list option"  \<comment> \<open>\<open>None\<close> when the showcase is absent\<close>

text \<open>The image objects of a character, in the order \<open>cache_images\<close> visits them.\<close>

definition image_objects :: "'s CharacterInfo \<Rightarrow> addr list" where
  "image_objects c =
     image_banner c # skills c @ constellations c @ map detail_icon (equipments c)"

subsection \<open>Deep copies\<close>

text \<open>
  \<open>copy(deep=True)\<close> copies every object reachable from the model into a new object; an
  object reached twice is copied once (the memo of \<open>copy.deepcopy\<close>).  A new object gets
  the next free address.
\<close>

definition copy_obj :: "(addr \<times> addr) list \<Rightarrow> heap \<Rightarrow> addr \<Rightarrow> addr \<times> (addr \<times> addr) list \<times> heap" where
  "copy_obj memo h a =
     (case map_of memo a of
        Some a' \<Rightarrow> (a', memo, h)
      | None \<Rightarrow> (length h, (a, length h) # memo, h @ [h ! a]))"

fun copy_objs :: "(addr \<times> addr) list \<Rightarrow> heap \<Rightarrow> addr list \<Rightarrow> addr list \<times> (addr \<times> addr) list \<times> heap" where
  "copy_objs memo h [] = ([], memo, h)"
| "copy_objs memo h (a # as) =
     (case copy_obj memo h a of
        (a', memo', h') \<Rightarrow>
          (case copy_objs memo' h' as of
             (as', memo'', h'') \<Rightarrow> (a' # as', memo'', h'')))"

definition deepcopy_character :: "heap \<Rightarrow> 's CharacterInfo \<Rightarrow> 's CharacterInfo \<times> heap" where
  "deepcopy_character h c =
     (case copy_objs [] h (image_objects c) of
        (new, memo, h') \<Rightarrow>
          (let ns = length (skills c); nc = length (constellations c);
               es = drop (1 + ns + nc) new
           in (c\<lparr>image_banner := hd new,
                 skills := take ns (tl new),
                 constellations := take nc (drop (1 + ns) new),
                 equipments := map (\<lambda>(e, a). e\<lparr>detail_icon := a\<rparr>) (zip (equipments c) es)\<rparr>,
               h')))"

subsection \<open>RenderTemplate\<close>

record 's RenderTemplate =
  self_uid :: int  \<comment> \<open>\<open>self.uid\<close>\<close>
  self_character :: "'s CharacterInfo"  \<comment> \<open>\<open>self.character\<close>\<close>

text \<open>\<open>RenderTemplate.__init__\<close>: \<open>self.character = character.copy(deep=True)\<close>.\<close>

definition RenderTemplate_init :: "int \<Rightarrow> 's CharacterInfo \<Rightarrow> heap \<Rightarrow> 's RenderTemplate \<times> heap" where
  "RenderTemplate_init uid character h =
     (case deepcopy_character h character of
        (c, h') \<Rightarrow> (\<lparr>self_uid = uid, self_character = c\<rparr>, h'))"

text \<open>
  \<open>item.icon.url = await download_resource(item.icon.url)\<close> for each item in turn.  The
  function \<open>download_resource\<close> (utils.helpers) is a parameter: it returns the local path or
  raises.  When it raises, the objects handled before keep their new url.
\<close>

fun download_icons :: "(pystr \<Rightarrow> exn + pystr) \<Rightarrow> addr list \<Rightarrow> heap \<Rightarrow> exn option \<times> heap" where
  "download_icons download_resource [] h = (None, h)"
| "download_icons download_resource (a # as) h =
     (case h ! a of
        Icon url \<Rightarrow>
          (case download_resource url of
             Inl e \<Rightarrow> (Some e, h)
           | Inr path \<Rightarrow> download_icons download_resource as (h[a := Icon path]))
      | Exploration _ _ \<Rightarrow> (Some AttributeError, h))"

text \<open>\<open>RenderTemplate.cache_images\<close>: the banner, the skills, the constellations, the equipment.\<close>

definition cache_images :: "(pystr \<Rightarrow> exn + pystr) \<Rightarrow> 's RenderTemplate \<Rightarrow> heap \<Rightarrow> exn option \<times> heap" where
  "cache_images download_resource self h =
     download_icons download_resource (image_objects (self_character self)) h"

definition find_weapon :: "'s RenderTemplate \<Rightarrow> 's Equipments option" where
  "find_weapon self = find (\<lambda>item. equip_type item = WEAPON) (equipments (self_character self))"

text \<open>
  \<open>RenderTemplate.find_artifacts\<close>.  \<open>ArtifactStatsTheory(name).theory(s)\<close>
  (modules.playercards.helpers) is the parameter \<open>theory\<close>.
\<close>

definition find_artifacts :: "(pystr \<Rightarrow> 's \<Rightarrow> rat) \<Rightarrow> 's RenderTemplate \<Rightarrow> 's Equipments Artifact list" where
  "find_artifacts theory self =
     map (\<lambda>e. Artifact_init e (map (theory (name (self_character self))) (detail_substats e)))
       (filter (\<lambda>e. equip_type e = ARTIFACT) (equipments (self_character self)))"

text \<open>The tuple of (label, threshold) pairs written out in \<open>RenderTemplate.render\<close>.\<close>

definition render_grade_table :: "(pystr \<times> rat) list" where
  "render_grade_table =
     [(ascii ''D'', 10),
      (ascii ''C'', 16.5),
      (ascii ''B'', 23.1),
      (ascii ''A'', 29.7),
      (ascii ''S'', 36.3),
      (ascii ''SS'', 42.9),
      (ascii ''SSS'', 49.5),
      (ascii ''ACE'', 56.1),
      (ascii ''ACE'' @ [178], 66)]"

text \<open>
  The payload \<open>data\<close> that \<open>render\<close> hands to the template service.  The entries \<open>stats\<close>
  and \<open>DigitType\<close> are left out: they are computed from fields this model does not hold.
\<close>

record 's render_data =
  data_uid :: int
  data_character :: "'s CharacterInfo"
  data_weapon :: "'s Equipments option"
  artifact_total_score :: rat
  artifact_total_score_label :: pystr
  artifact_total_score_class :: pystr
  data_artifacts :: "'s Equipments Artifact list"

definition render_data_of :: "(pystr \<Rightarrow> 's \<Rightarrow> rat) \<Rightarrow> 's RenderTemplate \<Rightarrow> 's render_data" where
  "render_data_of theory self =
     (let artifacts = find_artifacts theory self;
          total0 = foldl (+) 0 (map score artifacts);
          total = py_round1 total0;
          label = fold (\<lambda>r l. if snd r \<le> total / 5 then fst r else l) render_grade_table
                    (ascii ''E'')
      in \<lparr>data_uid = self_uid self,
          data_character = self_character self,
          data_weapon = find_weapon self,
          artifact_total_score = total,
          artifact_total_score_label = label,
          artifact_total_score_class = get_score_class label,
          data_artifacts = artifacts\<rparr>)"

text \<open>
  \<open>RenderTemplate.render\<close>: mirror the images, then build the payload.  The call of the
  template service that follows is outside the model; \<open>render\<close> returns the payload it
  is given, or the exception of a failed download, and the heap it leaves.
\<close>

definition render :: "(pystr \<Rightarrow> exn + pystr) \<Rightarrow> (pystr \<Rightarrow> 's \<Rightarrow> rat) \<Rightarrow> 's RenderTemplate \<Rightarrow> heap \<Rightarrow> (exn + 's render_data) \<times> heap" where
  "render download_resource theory self h =
     (case cache_images download_resource self h of
        (Some e, h') \<Rightarrow> (Inl e, h')
      | (None, h') \<Rightarrow> (Inr (render_data_of theory self), h'))"

subsection \<open>The statistics page (plugins/genshin/stats.py)\<close>

text \<open>\<open>GenshinUserStats\<close>: the exploration entries are the objects \<open>cache_images\<close> writes to.\<close>

record user_stats =
  explorations :: "addr list"

definition deepcopy_user_stats :: "heap \<Rightarrow> user_stats \<Rightarrow> user_stats \<times> heap" where
  "deepcopy_user_stats h u =
     (case copy_objs [] h (explorations u) of
        (new, memo, h') \<Rightarrow> (u\<lparr>explorations := new\<rparr>, h'))"

text \<open>
  \<open>PlayerStatsPlugins.cache_images\<close>: \<open>item.icon = ...; item.cover = ...\<close> for each
  exploration entry.
\<close>

fun stats_cache_images :: "(pystr \<Rightarrow> exn + pystr) \<Rightarrow> addr list \<Rightarrow> heap \<Rightarrow> exn option \<times> heap" where
  "stats_cache_images download_resource [] h = (None, h)"
| "stats_cache_images download_resource (a # as) h =
     (case h ! a of
        Exploration icon cover \<Rightarrow>
          (case download_resource icon of
             Inl e \<Rightarrow> (Some e, h)
           | Inr icon' \<Rightarrow>
               (case download_resource cover of
                  Inl e \<Rightarrow> (Some e, h[a := Exploration icon' cover])
                | Inr cover' \<Rightarrow>
                    stats_cache_images download_resource as (h[a := Exploration icon' cover'])))
      | Icon _ \<Rightarrow> (Some AttributeError, h))"

text \<open>
  \<open>PlayerStatsPlugins.render\<close>, from the \<open>user_info\<close> the client returned: the deep copy,
  then \<open>cache_images\<close> on the copy.  It returns the copy the payload is built from.
\<close>

definition stats_render :: "(pystr \<Rightarrow> exn + pystr) \<Rightarrow> user_stats \<Rightarrow> heap \<Rightarrow> (exn + user_stats) \<times> heap" where
  "stats_render download_resource user_info h =
     (case deepcopy_user_stats h user_info of
        (copied, h1) \<Rightarrow>
          (case stats_cache_images download_resource (explorations copied) h1 of
             (Some e, h2) \<Rightarrow> (Inl e, h2)
           | (None, h2) \<Rightarrow> (Inr copied, h2)))"

section \<open>Strings, slices and integers as Python has them\<close>

text \<open>\<open>str(n)\<close> of an integer, as an f-string writes it: decimal digits, \<open>-\<close> first when negative.\<close>

fun str_nat :: "nat \<Rightarrow> pystr" where
  "str_nat n = (if n < 10 then [48 + n] else str_nat (n div 10) @ [48 + n mod 10])"

declare str_nat.simps [simp del]

definition str_int :: "int \<Rightarrow> pystr" where
  "str_int i = (if i < 0 then 45 # str_nat (nat (- i)) else str_nat (nat i))"

text \<open>
  \<open>xs[i:j]\<close>: a negative bound counts from the end, and both bounds are clamped to the
  list, so a slice never raises.
\<close>

definition py_slice :: "'a list \<Rightarrow> int \<Rightarrow> int \<Rightarrow> 'a list" where
  "py_slice xs i j =
     (let n = int (length xs);
          lo = (if i < 0 then max (i + n) 0 else min i n);
          hi = (if j < 0 then max (j + n) 0 else min j n)
      in take (nat (hi - lo)) (drop (nat lo) xs))"

text \<open>\<open>xs[i]\<close> raises \<open>IndexError\<close> out of range.\<close>

definition py_index :: "'a list \<Rightarrow> int \<Rightarrow> exn + 'a" where
  "py_index xs i =
     (let n = int (length xs); k = (if i < 0 then i + n else i)
      in if 0 \<le> k \<and> k < n then Inr (xs ! nat k) else Inl IndexError)"

text \<open>\<open>s.split("|")\<close>; the code point of \<open>|\<close> is 124.\<close>

fun split_on :: "nat \<Rightarrow> pystr \<Rightarrow> pystr \<Rightarrow> pystr list" where
  "split_on sep cur [] = [rev cur]"
| "split_on sep cur (c # cs) =
     (if c = sep then rev cur # split_on sep [] cs else split_on sep (c # cur) cs)"

definition split_bar :: "pystr \<Rightarrow> pystr list" where
  "split_bar s = split_on 124 [] s"

text \<open>
  \<open>int(s)\<close> and \<open>s.isdigit()\<close> on the strings the keyboard writes: ASCII decimal digits
  with an optional sign.  (Python also accepts surrounding blanks, underscores and the
  digits of other scripts; no token of this program holds them, and the model answers
  \<open>ValueError\<close> and \<open>False\<close> there.)
\<close>

definition is_digit :: "nat \<Rightarrow> bool" where
  "is_digit c = (48 \<le> c \<and> c \<le> 57)"

definition py_isdigit :: "pystr \<Rightarrow> bool" where
  "py_isdigit s = (s \<noteq> [] \<and> list_all is_digit s)"

definition nat_of_digits :: "pystr \<Rightarrow> nat" where
  "nat_of_digits ds = foldl (\<lambda>n c. 10 * n + (c - 48)) 0 ds"

definition py_int :: "pystr \<Rightarrow> exn + int" where
  "py_int s =
     (if s \<noteq> [] \<and> hd s = 45
      then (if py_isdigit (tl s) then Inr (- int (nat_of_digits (tl s))) else Inl ValueError)
      else if s \<noteq> [] \<and> hd s = 43
      then (if py_isdigit (tl s) then Inr (int (nat_of_digits (tl s))) else Inl ValueError)
      else (if py_isdigit s then Inr (int (nat_of_digits s)) else Inl ValueError))"

section \<open>The keyboard (PlayerCards.gen\_button)\<close>

record InlineKeyboardButton =
  button_text :: pystr  \<comment> \<open>the first argument, \<open>text\<close>\<close>
  callback_data :: pystr

definition prev_text :: pystr where
  "prev_text = ascii ''<< '' @ [19978, 19968, 39029]"

definition update_text :: pystr where
  "update_text = [26356, 26032, 38754, 26495]"

definition next_text :: pystr where
  "next_text = [19979, 19968, 39029] @ ascii '' >>''"

text \<open>The characters of a response; none when \<open>data.characters\<close> is \<open>None\<close>.\<close>

definition roster :: "'s EnkaNetworkResponse \<Rightarrow> 's CharacterInfo list" where
  "roster data = (case characters data of None \<Rightarrow> [] | Some cs \<Rightarrow> cs)"

text \<open>
  \<open>InlineKeyboardButton(text, callback_data=...)\<close> and the two f-strings of the tokens:
  \<open>f"get_player_card|{user_id}|{uid}|{selector}"\<close> and
  \<open>f"update_player_card|{user_id}|{uid}"\<close>.
\<close>

definition button :: "pystr \<Rightarrow> pystr \<Rightarrow> InlineKeyboardButton" where
  "button t d = \<lparr>button_text = t, callback_data = d\<rparr>"

definition get_token :: "int \<Rightarrow> int \<Rightarrow> pystr \<Rightarrow> pystr" where
  "get_token user_id uid selector =
     ascii ''get_player_card|'' @ str_int user_id @ ascii ''|'' @ str_int uid @ ascii ''|''
     @ selector"

definition update_token :: "int \<Rightarrow> int \<Rightarrow> pystr" where
  "update_token user_id uid =
     ascii ''update_player_card|'' @ str_int user_id @ ascii ''|'' @ str_int uid"

text \<open>The list comprehension: one button per character whose name is not empty.\<close>

definition character_buttons :: "'s EnkaNetworkResponse \<Rightarrow> int \<Rightarrow> int \<Rightarrow> InlineKeyboardButton list" where
  "character_buttons data user_id uid =
     (case characters data of
        None \<Rightarrow> []
      | Some cs \<Rightarrow>
          map (\<lambda>value. button (name value) (get_token user_id uid (name value)))
            (filter (\<lambda>value. name value \<noteq> []) cs))"

text \<open>\<open>[buttons[i : i + 4] for i in range(0, len(buttons), 4)]\<close>.\<close>

definition rows_of :: "'a list \<Rightarrow> 'a list list" where
  "rows_of buttons =
     map (\<lambda>k. py_slice buttons (4 * int k) (4 * int k + 4)) [0 ..< (length buttons + 3) div 4]"

text \<open>\<open>math.ceil(len(all_buttons) / 3)\<close>.\<close>

definition page_count :: "'a list list \<Rightarrow> int" where
  "page_count all_buttons = int ((length all_buttons + 2) div 3)"

text \<open>The row \<open>last_button\<close>, from \<open>last_page\<close>, \<open>all_page\<close> and \<open>next_page\<close>.\<close>

definition last_button_row :: "int \<Rightarrow> int \<Rightarrow> int \<Rightarrow> int \<Rightarrow> bool \<Rightarrow> InlineKeyboardButton list" where
  "last_button_row user_id uid page all_page update_button =
     (let last_page = (if page > 1 then page - 1 else 0);
          next_page = (if page < all_page \<and> all_page > 1 then page + 1 else 0)
      in (if last_page \<noteq> 0
          then [button prev_text (get_token user_id uid (str_int last_page))]
          else [])
         @ (if last_page \<noteq> 0 \<or> next_page \<noteq> 0
            then [button (str_int page @ ascii ''/'' @ str_int all_page)
                    (get_token user_id uid (ascii ''empty_data''))]
            else [])
         @ (if update_button then [button update_text (update_token user_id uid)] else [])
         @ (if next_page \<noteq> 0
            then [button next_text (get_token user_id uid (str_int next_page))]
            else []))"

text \<open>\<open>all_buttons[(page - 1) * 3 : page * 3]\<close>: the rows of one page.\<close>

definition page_window :: "'a list list \<Rightarrow> int \<Rightarrow> 'a list list" where
  "page_window all_buttons page = py_slice all_buttons ((page - 1) * 3) (page * 3)"

definition gen_button :: "'s EnkaNetworkResponse \<Rightarrow> int \<Rightarrow> int \<Rightarrow> int \<Rightarrow> bool \<Rightarrow> InlineKeyboardButton list list" where
  "gen_button data user_id uid page update_button =
     (let buttons = character_buttons data user_id uid;
          all_buttons = rows_of buttons;
          send_buttons = page_window all_buttons page;
          all_page = page_count all_buttons;
          last_button = last_button_row user_id uid page all_page update_button
      in if last_button \<noteq> [] then send_buttons @ [last_button] else send_buttons)"

section \<open>The stores and the remote fetch (PlayerCards.\_update\_enka\_data)\<close>

text \<open>
  What a handler does to the outside, in the order it does it: the remote request, the
  writes to the two stores, and the Telegram calls.  \<open>CacheWrite uid v ttl\<close> carries the
  time to live the entry is written with.
\<close>

datatype ChatAction = TYPING | UPLOAD_PHOTO

datatype media =
    HolderCard  \<comment> \<open>the rendered \<open>holder.jinja2\<close>\<close>
  | PlayerCard int pystr  \<comment> \<open>the rendered card \<open>player_card_{uid}_{name}.png\<close>\<close>

datatype 'd effect =
    RemoteFetch int
  | HistoryWrite int 'd
  | CacheWrite int 'd int
  | Answer pystr bool  \<comment> \<open>\<open>callback_query.answer(text, show_alert)\<close>\<close>
  | ReplyChatAction ChatAction
  | MessageDelete
  | EditReplyMarkup "InlineKeyboardButton list list"
  | EditMedia media "InlineKeyboardButton list list option"

text \<open>
  The state the plugin works on: the cache (each entry with the time it expires at), the
  history store, the clock, and the effects so far.  The clock does not move while one
  handler runs.
\<close>

record 'd world =
  cache :: "int \<rightharpoonup> 'd \<times> int"
  history :: "int \<rightharpoonup> 'd"
  now :: int
  trace :: "'d effect list"

text \<open>
  The collaborators whose code is outside the plugin, as parameters: whether a call to a
  store raises, what the remote service answers, how the body is decoded
  (\<open>decode\<close> and \<open>jsonlib.loads\<close>), the merge policy of the history store, the pydantic
  parser, and whether a render raises.
\<close>

record ('r, 'd, 's) env =
  cache_get_raises :: "int \<Rightarrow> exn option"
  fetch_user_by_uid :: "int \<Rightarrow> exn + 'r"
  decode_loads :: "'r \<Rightarrow> exn + 'd"
  merge_policy :: "'d option \<Rightarrow> 'd \<Rightarrow> 'd"
  merge_info_raises :: "int \<Rightarrow> exn option"
  cache_set_raises :: "int \<Rightarrow> exn option"
  parse_obj :: "'d \<Rightarrow> exn + 's EnkaNetworkResponse"
  holder_render_raises :: "'s EnkaNetworkResponse \<Rightarrow> exn option"
  card_render_raises :: "int \<Rightarrow> 's CharacterInfo \<Rightarrow> exn option"

text \<open>
  Modelled from the spec: \<open>RedisCache\<close> (utils/enkanetwork.py is not among the sources).
  \<open>get\<close> returns the stored value while \<open>now < expires_at\<close> and a miss otherwise;
  \<open>set\<close> overwrites the entry and restarts its expiry; \<open>ttl\<close> is the number of
  seconds left, negative when the key is missing or expired.  The time to live is the
  \<open>ex=60\<close> the plugin constructs the cache with.  A call either raises before it
  touches the store or completes.
\<close>

definition cache_lookup :: "'d world \<Rightarrow> int \<Rightarrow> 'd option" where
  "cache_lookup w uid =
     (case cache w uid of
        None \<Rightarrow> None
      | Some (v, expires_at) \<Rightarrow> if now w < expires_at then Some v else None)"

definition RedisCache_get :: "('r, 'd, 's) env \<Rightarrow> 'd world \<Rightarrow> int \<Rightarrow> exn + 'd option" where
  "RedisCache_get e w uid =
     (case cache_get_raises e uid of Some x \<Rightarrow> Inl x | None \<Rightarrow> Inr (cache_lookup w uid))"

definition RedisCache_set :: "('r, 'd, 's) env \<Rightarrow> 'd world \<Rightarrow> int \<Rightarrow> 'd \<Rightarrow> exn + 'd world" where
  "RedisCache_set e w uid v =
     (case cache_set_raises e uid of
        Some x \<Rightarrow> Inl x
      | None \<Rightarrow>
          Inr (w\<lparr>cache := (cache w)(uid \<mapsto> (v, now w + 60)),
                 trace := trace w @ [CacheWrite uid v 60]\<rparr>))"

definition RedisCache_ttl :: "'d world \<Rightarrow> int \<Rightarrow> int" where
  "RedisCache_ttl w uid =
     (case cache w uid of
        None \<Rightarrow> - 2
      | Some (v, expires_at) \<Rightarrow> if now w < expires_at then expires_at - now w else - 2)"

text \<open>
  Modelled from the spec: \<open>PlayerCardsFile\<close> (modules/playercards/file.py is not among
  the sources).  \<open>merge_info\<close> combines the fetched payload with the previous snapshot,
  stores the result as the new durable value and returns it; \<open>load_history_info\<close>
  returns the stored snapshot or \<open>None\<close> and never expires.
\<close>

definition merge_info :: "('r, 'd, 's) env \<Rightarrow> 'd world \<Rightarrow> int \<Rightarrow> 'd \<Rightarrow> exn + 'd \<times> 'd world" where
  "merge_info e w uid data =
     (case merge_info_raises e uid of
        Some x \<Rightarrow> Inl x
      | None \<Rightarrow>
          (let merged = merge_policy e (history w uid) data
           in Inr (merged,
                   w\<lparr>history := (history w)(uid \<mapsto> merged),
                     trace := trace w @ [HistoryWrite uid merged]\<rparr>)))"

definition load_history_info :: "'d world \<Rightarrow> int \<Rightarrow> 'd option" where
  "load_history_info w uid = history w uid"

text \<open>The body of the \<open>try\<close>: the exception it raises, or the response it returns.\<close>

definition update_enka_data_try :: "('r, 'd, 's) env \<Rightarrow> 'd world \<Rightarrow> int \<Rightarrow> (exn + 's EnkaNetworkResponse) \<times> 'd world" where
  "update_enka_data_try e w uid =
     (case RedisCache_get e w uid of
        Inl x \<Rightarrow> (Inl x, w)
      | Inr (Some data) \<Rightarrow> (parse_obj e data, w)
      | Inr None \<Rightarrow>
          (let w1 = w\<lparr>trace := trace w @ [RemoteFetch uid]\<rparr>
           in case fetch_user_by_uid e uid of
                Inl x \<Rightarrow> (Inl x, w1)
              | Inr user \<Rightarrow>
                  (case decode_loads e user of
                     Inl x \<Rightarrow> (Inl x, w1)
                   | Inr data \<Rightarrow>
                       (case merge_info e w1 uid data of
                          Inl x \<Rightarrow> (Inl x, w1)
                        | Inr (merged, w2) \<Rightarrow>
                            (case RedisCache_set e w2 uid merged of
                               Inl x \<Rightarrow> (Inl x, w2)
                             | Inr w3 \<Rightarrow> (parse_obj e merged, w3))))))"

text \<open>The eight \<open>except\<close> clauses, in the order of the source, each with its message.\<close>

definition handled_exceptions :: "exn list" where
  "handled_exceptions =
     [AioHttpTimeoutException, EnkaServerRateLimit, EnkaServerMaintanance, EnkaServerError,
      EnkaServerUnknown, EnkaPlayerNotFound, VaildateUIDError, HTTPException]"

definition retry_later :: pystr where
  "retry_later = [65292, 35831, 31245, 21518, 37325, 35797]"

definition except_message :: "exn \<Rightarrow> pystr option" where
  "except_message x =
     (if x = AioHttpTimeoutException
      then Some (ascii ''Enka.Network '' @ [26381, 21153, 35831, 27714, 36229, 26102] @ retry_later)
      else if x = EnkaServerRateLimit
      then Some (ascii ''Enka.Network '' @ [24050, 23545, 27492] @ ascii ''API''
                 @ [36827, 34892, 36895, 29575, 38480, 21046] @ retry_later)
      else if x = EnkaServerMaintanance
      then Some (ascii ''Enka.Network '' @ [27491, 22312, 32500, 25252, 65292, 35831, 31561, 24453]
                 @ ascii ''5-8'' @ [23567, 26102, 25110] @ ascii ''1'' @ [22825])
      else if x = EnkaServerError
      then Some (ascii ''Enka.Network '' @ [26381, 21153, 35831, 27714, 38169, 35823] @ retry_later)
      else if x = EnkaServerUnknown
      then Some (ascii ''Enka.Network '' @ [26381, 21153, 30636, 38388, 29190, 28856] @ retry_later)
      else if x = EnkaPlayerNotFound
      then Some (ascii ''UID '' @ [26410, 25214, 21040, 65292, 21487, 33021, 20026, 26381, 21153,
                   22120, 25277, 39118] @ retry_later)
      else if x = VaildateUIDError
      then Some ([26410, 25214, 21040, 29609, 23478, 65292, 35831, 26816, 26597, 24744, 30340]
                 @ ascii ''UID/'' @ [29992, 25143, 21517])
      else if x = HTTPException
      then Some (ascii ''Enka.Network HTTP '' @ [26381, 21153, 35831, 27714, 38169, 35823]
                 @ retry_later)
      else None)"

text \<open>
  \<open>_update_enka_data\<close>: \<open>Inr (Inr response)\<close> is the response, \<open>Inr (Inl message)\<close> the
  error string returned in its place, \<open>Inl x\<close> an exception that no clause catches.
\<close>

definition update_enka_data :: "('r, 'd, 's) env \<Rightarrow> 'd world \<Rightarrow> int \<Rightarrow> (exn + pystr + 's EnkaNetworkResponse) \<times> 'd world" where
  "update_enka_data e w uid =
     (case update_enka_data_try e w uid of
        (Inr response, w') \<Rightarrow> (Inr (Inr response), w')
      | (Inl x, w') \<Rightarrow>
          (case except_message x of
             Some error \<Rightarrow> (Inr (Inl error), w')
           | None \<Rightarrow> (Inl x, w')))"

text \<open>\<open>_load_history\<close>.\<close>

definition load_history :: "('r, 'd, 's) env \<Rightarrow> 'd world \<Rightarrow> int \<Rightarrow> exn + 's EnkaNetworkResponse option" where
  "load_history e w uid =
     (case load_history_info w uid of
        None \<Rightarrow> Inr None
      | Some data \<Rightarrow> (case parse_obj e data of Inl x \<Rightarrow> Inl x | Inr r \<Rightarrow> Inr (Some r)))"


section \<open>The callback handlers\<close>

text \<open>
  Of an incoming callback query the handlers read the acting user's id
  (\<open>update.effective_user.id\<close>, \<open>callback_query.from_user.id\<close>) and the token
  \<open>callback_query.data\<close>.
\<close>

record update =
  acting_user :: int
  callback_query_data :: pystr

text \<open>The inner function \<open>get_player_card_callback\<close> of \<open>update_player_card\<close>.\<close>

definition update_callback :: "pystr \<Rightarrow> exn + int \<times> int" where
  "update_callback token =
     (let data = split_bar token
      in case py_index data 1 of
           Inl x \<Rightarrow> Inl x
         | Inr d1 \<Rightarrow>
             (case py_int d1 of
                Inl x \<Rightarrow> Inl x
              | Inr user_id \<Rightarrow>
                  (case py_index data 2 of
                     Inl x \<Rightarrow> Inl x
                   | Inr d2 \<Rightarrow>
                       (case py_int d2 of
                          Inl x \<Rightarrow> Inl x
                        | Inr uid \<Rightarrow> Inr (user_id, uid)))))"

text \<open>The inner function \<open>get_player_card_callback\<close> of \<open>get_player_cards\<close>.\<close>

definition get_callback :: "pystr \<Rightarrow> exn + pystr \<times> int \<times> int" where
  "get_callback token =
     (let data = split_bar token
      in case py_index data 1 of
           Inl x \<Rightarrow> Inl x
         | Inr d1 \<Rightarrow>
             (case py_int d1 of
                Inl x \<Rightarrow> Inl x
              | Inr user_id \<Rightarrow>
                  (case py_index data 2 of
                     Inl x \<Rightarrow> Inl x
                   | Inr d2 \<Rightarrow>
                       (case py_int d2 of
                          Inl x \<Rightarrow> Inl x
                        | Inr uid \<Rightarrow>
                            (case py_index data 3 of
                               Inl x \<Rightarrow> Inl x
                             | Inr result \<Rightarrow> Inr (result, user_id, uid))))))"

definition emit :: "'d effect \<Rightarrow> 'd world \<Rightarrow> 'd world" where
  "emit ef w = w\<lparr>trace := trace w @ [ef]\<rparr>"

definition not_your_button :: pystr where
  "not_your_button = [36825, 19981, 26159, 20320, 30340, 25353, 38062, 65281, 10]"

definition no_showcase_text :: pystr where
  "no_showcase_text =
     [35831, 20808, 23558, 35282, 33394, 21152, 20837, 21040, 35282, 33394, 23637, 26588, 24182,
      20801, 35768, 26597, 30475, 35282, 33394, 35814, 24773, 21518, 20877, 20351, 29992, 27492,
      21151, 33021, 65292, 22914, 26524, 24050, 32463, 28155, 21152, 20102, 35282, 33394, 65292,
      35831, 31561, 24453, 35282, 33394, 25968, 25454, 26356, 26032, 21518, 37325, 35797]"

definition fetching_text :: pystr where
  "fetching_text =
     [27491, 22312, 20174] @ ascii '' EnkaNetwork '' @ [33719, 21462, 35282, 33394, 21015, 34920]
     @ ascii '' '' @ [35831, 19981, 35201, 37325, 22797, 28857, 20987, 25353, 38062]"

definition rendering_text :: pystr where
  "rendering_text =
     [27491, 22312, 28210, 26579, 22270, 29255, 20013] @ ascii '' '' @ [35831, 31245, 31561]
     @ ascii '' '' @ [35831, 19981, 35201, 37325, 22797, 28857, 20987, 25353, 38062]"

definition unavailable_text :: pystr where
  "unavailable_text = [27492, 25353, 38062, 19981, 21487, 29992]"

definition wait_text :: "int \<Rightarrow> pystr" where
  "wait_text ttl =
     [35831, 31561, 24453] @ ascii '' '' @ str_int ttl @ ascii '' ''
     @ [31186, 21518, 20877, 26356, 26032]"

definition switched_text :: "int \<Rightarrow> pystr" where
  "switched_text page =
     [24050, 20999, 25442, 21040, 31532] @ ascii '' '' @ str_int page @ ascii '' '' @ [39029]"

definition character_missing_text :: "pystr \<Rightarrow> pystr" where
  "character_missing_text result =
     [35282, 33394, 23637, 26588, 20013, 26410, 25214, 21040] @ ascii '' '' @ result @ ascii '' ''
     @ [65292, 35831, 26816, 26597, 35282, 33394, 26159, 21542, 23384, 22312, 20110, 35282, 33394,
        23637, 26588, 20013, 65292, 25110, 32773, 31561, 24453, 35282, 33394, 25968, 25454, 26356,
        26032, 21518, 37325, 35797]"

text \<open>
  \<open>PlayerCards.update_player_card\<close>.  The result is the exception the handler ends with,
  if any, and the state it leaves.  \<open>user_mismatch\<close> is \<open>config.notice.user_mismatch\<close>.
  The Telegram calls are taken to succeed; \<open>parse_holder_data\<close> and the render of the
  holder template are the parameter \<open>holder_render_raises\<close>.
\<close>

definition update_player_card :: "('r, 'd, 's) env \<Rightarrow> pystr \<Rightarrow> 'd world \<Rightarrow> update \<Rightarrow> exn option \<times> 'd world" where
  "update_player_card e user_mismatch w upd =
     (case update_callback (callback_query_data upd) of
        Inl x \<Rightarrow> (Some x, w)
      | Inr (user_id, uid) \<Rightarrow>
          if acting_user upd \<noteq> user_id
          then (None, emit (Answer (not_your_button @ user_mismatch) True) w)
          else
            (let ttl = RedisCache_ttl w uid
             in if ttl > 0 then (None, emit (Answer (wait_text ttl) True) w)
                else
                  (let w1 = emit (ReplyChatAction TYPING) w;
                       w2 = emit (Answer fetching_text False) w1
                   in case update_enka_data e w2 uid of
                        (Inl x, w3) \<Rightarrow> (Some x, w3)
                      | (Inr (Inl error), w3) \<Rightarrow> (None, emit (Answer error True) w3)
                      | (Inr (Inr data), w3) \<Rightarrow>
                          (case characters data of
                             None \<Rightarrow>
                               (None, emit (Answer no_showcase_text True) (emit MessageDelete w3))
                           | Some cs \<Rightarrow>
                               (let buttons = gen_button data (acting_user upd) uid 1 False
                                in case holder_render_raises e data of
                                     Some x \<Rightarrow> (Some x, w3)
                                   | None \<Rightarrow>
                                       (None, emit (EditMedia HolderCard (Some buttons)) w3))))))"

text \<open>
  \<open>PlayerCards.get_player_cards\<close>.  When the history store has no snapshot,
  \<open>_load_history\<close> returns \<open>None\<close> and \<open>data.characters\<close> raises \<open>AttributeError\<close>.
  The render of the card is the parameter \<open>card_render_raises\<close>.
\<close>

definition get_player_cards :: "('r, 'd, 's) env \<Rightarrow> pystr \<Rightarrow> 'd world \<Rightarrow> update \<Rightarrow> exn option \<times> 'd world" where
  "get_player_cards e user_mismatch w upd =
     (case get_callback (callback_query_data upd) of
        Inl x \<Rightarrow> (Some x, w)
      | Inr (result, user_id, uid) \<Rightarrow>
          if acting_user upd \<noteq> user_id
          then (None, emit (Answer (not_your_button @ user_mismatch) True) w)
          else if result = ascii ''empty_data''
          then (None, emit (Answer unavailable_text True) w)
          else
            (case (if py_isdigit result then py_int result else Inr 0) of
               Inl x \<Rightarrow> (Some x, w)
             | Inr page \<Rightarrow>
                 (case load_history e w uid of
                    Inl x \<Rightarrow> (Some x, w)
                  | Inr None \<Rightarrow> (Some AttributeError, w)
                  | Inr (Some data) \<Rightarrow>
                      (case characters data of
                         None \<Rightarrow>
                           (None, emit (Answer no_showcase_text True) (emit MessageDelete w))
                       | Some cs \<Rightarrow>
                           if page \<noteq> 0
                           then
                             (let buttons = gen_button data (acting_user upd) uid page
                                              (\<not> RedisCache_ttl w uid > 0)
                              in (None, emit (Answer (switched_text page) False)
                                          (emit (EditReplyMarkup buttons) w)))
                           else
                             (case find (\<lambda>c. name c = result) cs of
                                None \<Rightarrow>
                                  (None, emit (Answer (character_missing_text result) True)
                                           (emit MessageDelete w))
                              | Some c \<Rightarrow>
                                  (let w1 = emit (Answer rendering_text False) w;
                                       w2 = emit (ReplyChatAction UPLOAD_PHOTO) w1
                                   in case card_render_raises e uid c of
                                        Some x \<Rightarrow> (Some x, w2)
                                      | None \<Rightarrow>
                                          (None, emit (EditMedia (PlayerCard uid result) None)
                                                   w2)))))))"

section \<open>The wiki cache (core/services/wiki/cache.py)\<close>

text \<open>
  A decoded JSON value.  The decoder \<open>json.loads\<close> (ujson) is a parameter of the model:
  it maps a text to the value it denotes or raises.  Applied to anything that is not a
  string (\<open>None\<close>, a number, a list, ...) it raises \<open>TypeError\<close>.
\<close>

datatype json =
    JNull
  | JBool bool
  | JNum rat
  | JStr pystr
  | JList "json list"
  | JDict "(pystr \<times> json) list"

definition loads_value :: "(pystr \<Rightarrow> exn + json) \<Rightarrow> json \<Rightarrow> exn + json" where
  "loads_value loads v = (case v of JStr s \<Rightarrow> loads s | _ \<Rightarrow> Inl TypeError)"

text \<open>
  The loop \<open>for num, item in enumerate(result): result[num] = json.loads(item)\<close>: the
  first item that fails to decode ends it with that exception.
\<close>

fun loads_items :: "(pystr \<Rightarrow> exn + json) \<Rightarrow> json list \<Rightarrow> exn + json list" where
  "loads_items loads [] = Inr []"
| "loads_items loads (item # items) =
     (case loads_value loads item of
        Inl x \<Rightarrow> Inl x
      | Inr v \<Rightarrow>
          (case loads_items loads items of
             Inl x \<Rightarrow> Inl x
           | Inr vs \<Rightarrow> Inr (v # vs)))"

text \<open>
  \<open>WikiCache.get\<close>.  \<open>client_get\<close> is \<open>self.client.get\<close> of the Redis client: the
  stored text, \<open>None\<close> for an absent key, or an exception.  Everything the \<open>try\<close>
  block raises is caught and gives the empty list; the loop over a non-empty list stands
  after the \<open>try\<close> block.
\<close>

definition WikiCache_get :: "(pystr \<Rightarrow> exn + json) \<Rightarrow> (pystr \<Rightarrow> exn + pystr option) \<Rightarrow> pystr \<Rightarrow> exn + json" where
  "WikiCache_get loads client_get key =
     (let qname = ascii ''wiki:'' @ key;
          result =
            (case client_get qname of
               Inl x \<Rightarrow> JList []
             | Inr None \<Rightarrow> JList []
             | Inr (Some raw) \<Rightarrow> (case loads raw of Inl x \<Rightarrow> JList [] | Inr v \<Rightarrow> v))
      in case result of
           JList items \<Rightarrow>
             (if length items > 0
              then (case loads_items loads items of Inl x \<Rightarrow> Inl x | Inr vs \<Rightarrow> Inr (JList vs))
              else Inr result)
         | _ \<Rightarrow> Inr result)"

section \<open>Sample data\<close>

text \<open>Concrete profiles on which the theorems below are instantiated.\<close>

definition sample_character :: "pystr \<Rightarrow> unit CharacterInfo" where
  "sample_character n =
     \<lparr>name = n, image_banner = 0, skills = [], constellations = [], equipments = []\<rparr>"

definition sample_response :: "pystr list \<Rightarrow> unit EnkaNetworkResponse" where
  "sample_response names =
     \<lparr>response_uid = 100000001, characters = Some (map sample_character names)\<rparr>"

definition ten_names :: "pystr list" where
  "ten_names =
     [ascii ''Amber'', ascii ''Bennett'', ascii ''Diluc'', ascii ''Fischl'', ascii ''Jean'',
      ascii ''Keqing'', ascii ''Klee'', ascii ''Mona'', ascii ''Qiqi'', ascii ''Venti'']"


text \<open>
  A character with a weapon and one artifact whose two substats score 30 and 20, the five
  image objects it refers to, a mirror that always succeeds, and a scoring theory that
  reads the score off the substat.
\<close>

definition sample_equipped :: "rat CharacterInfo" where
  "sample_equipped =
     \<lparr>name = ascii ''Klee'', image_banner = 0, skills = [1], constellations = [2],
      equipments =
        [\<lparr>equip_type = WEAPON, detail_icon = 3, detail_substats = []\<rparr>,
         \<lparr>equip_type = ARTIFACT, detail_icon = 4, detail_substats = [30, 20]\<rparr>]\<rparr>"

definition sample_heap :: heap where
  "sample_heap =
     [Icon (ascii ''https://enka.network/ui/banner.png''),
      Icon (ascii ''https://enka.network/ui/skill.png''),
      Icon (ascii ''https://enka.network/ui/talent.png''),
      Icon (ascii ''https://enka.network/ui/weapon.png''),
      Icon (ascii ''https://enka.network/ui/flower.png'')]"

definition sample_download :: "pystr \<Rightarrow> exn + pystr" where
  "sample_download url = Inr (ascii ''/cache/'' @ url)"

definition sample_theory :: "pystr \<Rightarrow> rat \<Rightarrow> rat" where
  "sample_theory character_name s = s"

text \<open>The deep copy of that character, and the five copied objects once mirrored.\<close>

definition sample_self :: "rat RenderTemplate" where
  "sample_self =
     \<lparr>self_uid = 100000001,
      self_character =
        \<lparr>name = ascii ''Klee'', image_banner = 5, skills = [6], constellations = [7],
         equipments =
           [\<lparr>equip_type = WEAPON, detail_icon = 8, detail_substats = []\<rparr>,
            \<lparr>equip_type = ARTIFACT, detail_icon = 9, detail_substats = [30, 20]\<rparr>]\<rparr>\<rparr>"

definition sample_mirrored :: heap where
  "sample_mirrored =
     [Icon (ascii ''/cache/'' @ ascii ''https://enka.network/ui/banner.png''),
      Icon (ascii ''/cache/'' @ ascii ''https://enka.network/ui/skill.png''),
      Icon (ascii ''/cache/'' @ ascii ''https://enka.network/ui/talent.png''),
      Icon (ascii ''/cache/'' @ ascii ''https://enka.network/ui/weapon.png''),
      Icon (ascii ''/cache/'' @ ascii ''https://enka.network/ui/flower.png'')]"

text \<open>A statistics page with one exploration entry.\<close>

definition sample_user_stats :: user_stats where
  "sample_user_stats = \<lparr>explorations = [0]\<rparr>"

definition sample_stats_heap :: heap where
  "sample_stats_heap =
     [Exploration (ascii ''https://upload/icon.png'') (ascii ''https://upload/cover.png'')]"

text \<open>
  Collaborators that never fail: the service answers with an empty JSON object, the merge
  policy lets the new payload replace the old one, and every payload parses to the
  ten-character profile.  The state starts with both stores empty.
\<close>

definition sample_env :: "(pystr, pystr, unit) env" where
  "sample_env =
     \<lparr>cache_get_raises = (\<lambda>uid. None),
      fetch_user_by_uid = (\<lambda>uid. Inr (ascii ''{}'')),
      decode_loads = (\<lambda>raw. Inr raw),
      merge_policy = (\<lambda>previous fetched. fetched),
      merge_info_raises = (\<lambda>uid. None),
      cache_set_raises = (\<lambda>uid. None),
      parse_obj = (\<lambda>payload. Inr (sample_response ten_names)),
      holder_render_raises = (\<lambda>response. None),
      card_render_raises = (\<lambda>uid c. None)\<rparr>"

definition sample_world :: "pystr world" where
  "sample_world = \<lparr>cache = Map.empty, history = Map.empty, now = 1000, trace = []\<rparr>"


definition sample_fetched :: "pystr world" where
  "sample_fetched =
     \<lparr>cache = [100000001 \<mapsto> (ascii ''{}'', 1060)],
      history = [100000001 \<mapsto> ascii ''{}''],
      now = 1000,
      trace = [RemoteFetch 100000001, HistoryWrite 100000001 (ascii ''{}''),
               CacheWrite 100000001 (ascii ''{}'') 60]\<rparr>"


text \<open>
  A decoder that knows the text \<open>[1]\<close>, as \<open>json.loads\<close> decodes it, and a Redis
  client that holds this text under the key \<open>wiki:weapons\<close>.
\<close>

definition sample_loads :: "pystr \<Rightarrow> exn + json" where
  "sample_loads raw = (if raw = ascii ''[1]'' then Inr (JList [JNum 1]) else Inl ValueError)"

definition sample_client_get :: "pystr \<Rightarrow> exn + pystr option" where
  "sample_client_get qname =
     (if qname = ascii ''wiki:weapons'' then Inr (Some (ascii ''[1]'')) else Inr None)"

section \<open>Properties of the scoring\<close>

lemma ascii_simps: "ascii [] = []" "ascii (c # cs) = of_char c # ascii cs"
  by (simp_all add: ascii_def)

lemma score_artifact_grade_step: "score (artifact_grade_step r a) = score a"
  by (simp add: artifact_grade_step_def)

lemma score_fold_grade_step: "score (fold artifact_grade_step tbl a) = score a"
  by (induction tbl arbitrary: a) (simp_all add: score_artifact_grade_step)

lemma score_label_fold_grade_step:
  "score_label (fold artifact_grade_step tbl a) =
     fold (\<lambda>r l. if snd r \<le> score a then fst r else l) tbl (score_label a)"
proof (induction tbl arbitrary: a)
  case (Cons r tbl)
  show ?case
    by (simp add: Cons.IH score_artifact_grade_step) (simp add: artifact_grade_step_def)
qed simp

lemma score_class_fold_grade_step:
  "score_class (fold artifact_grade_step tbl a) =
     fold (\<lambda>r c. if snd r \<le> score a then get_score_class (fst r) else c) tbl (score_class a)"
proof (induction tbl arbitrary: a)
  case (Cons r tbl)
  show ?case
    by (simp add: Cons.IH score_artifact_grade_step) (simp add: artifact_grade_step_def)
qed simp

lemma fold_last_match:
  "fold (\<lambda>r l. if p r then f r else l) tbl l0 =
     (case filter p tbl of [] \<Rightarrow> l0 | r # rs \<Rightarrow> f (last (r # rs)))"
proof (induction tbl rule: rev_induct)
  case (snoc r tbl)
  show ?case
    by (cases "filter p tbl") (simp_all add: snoc.IH)
qed simp

lemma grade_fold:
  "grade x = fold (\<lambda>r l. if snd r \<le> x then fst r else l) artifact_grade_table (ascii ''E'')"
  by (simp add: grade_def score_label_fold_grade_step)

lemma grade_highest:
  "grade x =
     (case filter (\<lambda>r. snd r \<le> x) artifact_grade_table of
        [] \<Rightarrow> ascii ''E''
      | r # rs \<Rightarrow> fst (last (r # rs)))"
  unfolding grade_fold by (rule fold_last_match)

lemma grade_descending:
  "grade x =
     (if 66 \<le> x then ascii ''ACE'' @ [178]
      else if 56.1 \<le> x then ascii ''ACE''
      else if 49.5 \<le> x then ascii ''SSS''
      else if 42.9 \<le> x then ascii ''SS''
      else if 36.3 \<le> x then ascii ''S''
      else if 29.7 \<le> x then ascii ''A''
      else if 23.1 \<le> x then ascii ''B''
      else if 16.5 \<le> x then ascii ''C''
      else if 10 \<le> x then ascii ''D''
      else ascii ''E'')"
  unfolding grade_fold artifact_grade_table_def by simp

lemma grade_rank_grade:
  "grade_rank (grade x) =
     (if 66 \<le> x then 9 else if 56.1 \<le> x then 8 else if 49.5 \<le> x then 7
      else if 42.9 \<le> x then 6 else if 36.3 \<le> x then 5 else if 29.7 \<le> x then 4
      else if 23.1 \<le> x then 3 else if 16.5 \<le> x then 2 else if 10 \<le> x then 1 else 0)"
  unfolding grade_descending
  by (simp add: grade_rank_def grade_scale_def artifact_grade_table_def ascii_simps)

lemma grade_mono: "x \<le> y \<longrightarrow> grade_rank (grade x) \<le> grade_rank (grade y)"
  unfolding grade_rank_grade by simp

lemma grade_table_ascending: "sorted_wrt (<) (map snd artifact_grade_table)"
  by (simp add: artifact_grade_table_def)

lemma grade_examples:
  "grade 10 = ascii ''D'' \<and> grade 16.5 = ascii ''C''
   \<and> grade 66 = ascii ''ACE'' @ [178] \<and> grade 0 = ascii ''E''"
  by (simp add: grade_descending)

text \<open>
  Claim C3.  The letter grade of a total is the label of the highest threshold of the
  ascending table (D 10, C 16.5, B 23.1, A 29.7, S 36.3, SS 42.9, SSS 49.5, ACE 56.1,
  ACE with a superscript two 66) that is less than or equal to the total, and \<open>E\<close> when
  the total is below all of them; the grade never decreases when the total grows; 10 gives
  D, 16.5 gives C, 66 gives the highest grade and 0 gives E.
\<close>

theorem grade_highest_threshold:
  "grade x =
     (case filter (\<lambda>r. snd r \<le> x) artifact_grade_table of
        [] \<Rightarrow> ascii ''E''
      | r # rs \<Rightarrow> fst (last (r # rs)))
   \<and> sorted_wrt (<) (map snd artifact_grade_table)
   \<and> map snd artifact_grade_table = [10, 16.5, 23.1, 29.7, 36.3, 42.9, 49.5, 56.1, 66]
   \<and> grade_scale =
       [ascii ''E'', ascii ''D'', ascii ''C'', ascii ''B'', ascii ''A'', ascii ''S'', ascii ''SS'',
        ascii ''SSS'', ascii ''ACE'', ascii ''ACE'' @ [178]]
   \<and> (x \<le> y \<longrightarrow> grade_rank (grade x) \<le> grade_rank (grade y))
   \<and> grade 10 = ascii ''D'' \<and> grade 16.5 = ascii ''C''
   \<and> grade 66 = ascii ''ACE'' @ [178] \<and> grade 0 = ascii ''E''"
proof -
  have t: "map snd artifact_grade_table = [10, 16.5, 23.1, 29.7, 36.3, 42.9, 49.5, 56.1, 66]"
    and s: "grade_scale =
       [ascii ''E'', ascii ''D'', ascii ''C'', ascii ''B'', ascii ''A'', ascii ''S'', ascii ''SS'',
        ascii ''SSS'', ascii ''ACE'', ascii ''ACE'' @ [178]]"
    by (simp_all add: artifact_grade_table_def grade_scale_def)
  from grade_highest [of x] grade_table_ascending t s grade_mono [of x y] grade_examples
  show ?thesis
    by (intro conjI) simp_all
qed

theorem grade_highest_threshold_witness:
  "(12 :: rat) \<le> 40 \<and> grade_rank (grade 12) \<le> grade_rank (grade 40)
   \<and> grade 12 = ascii ''D''"
  using grade_highest_threshold [of 12 40] by (auto simp: artifact_grade_table_def)

section \<open>Properties of the artifact grades\<close>

lemma fold_add_score:
  "fold (\<lambda>s a. a\<lparr>score := score a + s\<rparr>) ss a = a\<lparr>score := score a + sum_list ss\<rparr>"
  by (induction ss arbitrary: a) (simp_all add: add.assoc)

lemma score_Artifact_init: "score (Artifact_init e ss) = py_round1 (sum_list ss)"
  by (simp add: Artifact_init_def Let_def score_fold_grade_step fold_add_score)

lemma score_label_Artifact_init: "score_label (Artifact_init e ss) = grade (py_round1 (sum_list ss))"
  by (simp add: Artifact_init_def Let_def score_label_fold_grade_step fold_add_score grade_fold)

lemma score_class_Artifact_init:
  "score_class (Artifact_init e ss) =
     fold (\<lambda>r c. if snd r \<le> py_round1 (sum_list ss) then get_score_class (fst r) else c)
       artifact_grade_table []"
  by (simp add: Artifact_init_def Let_def score_class_fold_grade_step fold_add_score)

lemma get_score_class_E: "get_score_class (ascii ''E'') = ascii ''text-neutral-400''"
  by (simp add: get_score_class_def score_class_mapping_def ascii_def)

lemma py_round1_samples:
  "py_round1 (73 / 10) = 73 / 10" "py_round1 (25 / 2) = 25 / 2" "py_round1 50 = 50"
  by (simp_all add: py_round1_def round_half_even_def Let_def)

text \<open>
  Claim C8, evaluated on the code.  The score of an artifact is the rounded sum of its
  substat scores.  From the lowest threshold on, the presentation tag is the lookup of the
  letter grade.  Below the lowest threshold the artifact is graded \<open>E\<close>, but its tag is
  the empty string of the class body, not the baseline tag that the lookup gives for
  \<open>E\<close>: \<open>get_score_class\<close> is called inside the threshold test only.
\<close>

theorem Artifact_score_class_of_label:
  "score (Artifact_init e ss) = py_round1 (sum_list ss)
   \<and> (10 \<le> score (Artifact_init e ss) \<longrightarrow>
        score_class (Artifact_init e ss) = get_score_class (score_label (Artifact_init e ss)))
   \<and> (score (Artifact_init e ss) < 10 \<longrightarrow>
        score_label (Artifact_init e ss) = ascii ''E''
        \<and> score_class (Artifact_init e ss) = []
        \<and> get_score_class (score_label (Artifact_init e ss)) = ascii ''text-neutral-400'')"
proof -
  let ?x = "py_round1 (sum_list ss)"
  let ?f = "filter (\<lambda>r. snd r \<le> ?x) artifact_grade_table"
  note defs = score_class_Artifact_init score_label_Artifact_init grade_fold fold_last_match
  have hi: "score_class (Artifact_init e ss) = get_score_class (score_label (Artifact_init e ss))"
    if "10 \<le> ?x"
  proof -
    have "?f \<noteq> []"
      using that by (simp add: artifact_grade_table_def)
    then obtain r rs where "?f = r # rs"
      by (cases ?f) auto
    then show ?thesis
      by (simp add: defs)
  qed
  have lo: "score_label (Artifact_init e ss) = ascii ''E'' \<and> score_class (Artifact_init e ss) = []"
    if "?x < 10"
  proof -
    have "?f = []"
      using that by (simp add: artifact_grade_table_def)
    then show ?thesis
      by (simp add: defs)
  qed
  show ?thesis
    using hi lo by (simp add: score_Artifact_init get_score_class_E)
qed

theorem Artifact_score_class_of_label_witness:
  "score (Artifact_init () [3.1, 4.2]) < 10
   \<and> score_label (Artifact_init () [3.1, 4.2]) = ascii ''E''
   \<and> score_class (Artifact_init () [3.1, 4.2]) = []
   \<and> 10 \<le> score (Artifact_init () [12.5])
   \<and> score_class (Artifact_init () [12.5]) = get_score_class (score_label (Artifact_init () [12.5]))"
proof -
  note A = Artifact_score_class_of_label [of "()" "[3.1, 4.2]"]
  note B = Artifact_score_class_of_label [of "()" "[12.5]"]
  have "score (Artifact_init () [3.1, 4.2]) < 10" "10 \<le> score (Artifact_init () [12.5])"
    using A B by (simp_all add: py_round1_samples)
  with A B show ?thesis
    by blast
qed

lemma foldl_add_sum: "foldl (+) (z :: rat) xs = z + sum_list xs"
  by (induction xs arbitrary: z) (simp_all add: add.assoc)

lemma render_label_eq_grade:
  "fold (\<lambda>r l. if snd r \<le> x then fst r else l) render_grade_table (ascii ''E'') = grade x"
  by (simp add: grade_fold render_grade_table_def artifact_grade_table_def)

lemma render_returns_payload:
  "fst (render download_resource theory self h) = Inr d \<Longrightarrow> d = render_data_of theory self"
  by (auto simp: render_def split: prod.splits option.splits)

text \<open>
  Claim C4.  In every character render the aggregate score is the rounded sum of the
  artifacts' scores, whatever their number; the aggregate grade is the letter grade, by
  the table that grades a single artifact, of that sum divided by 5; its tag is the lookup
  of that grade.  The divisor is the literal 5 of the source, not an argument.
\<close>

theorem render_total_grade:
  "artifact_total_score (render_data_of theory self) =
     py_round1 (sum_list (map score (find_artifacts theory self)))
   \<and> artifact_total_score_label (render_data_of theory self) =
       grade (artifact_total_score (render_data_of theory self) / 5)
   \<and> artifact_total_score_class (render_data_of theory self) =
       get_score_class (artifact_total_score_label (render_data_of theory self))
   \<and> render_grade_table = artifact_grade_table
   \<and> (\<forall>d. fst (render download_resource theory self h) = Inr d \<longrightarrow>
        artifact_total_score_label d =
          grade (py_round1 (sum_list (map score (find_artifacts theory self))) / 5))"
proof -
  have t: "artifact_total_score (render_data_of theory self) =
     py_round1 (sum_list (map score (find_artifacts theory self)))"
    by (simp add: render_data_of_def Let_def foldl_add_sum)
  have l: "artifact_total_score_label (render_data_of theory self) =
       grade (artifact_total_score (render_data_of theory self) / 5)"
    unfolding render_data_of_def Let_def
    by (simp only: render_data.select_convs render_label_eq_grade)
  have c: "artifact_total_score_class (render_data_of theory self) =
       get_score_class (artifact_total_score_label (render_data_of theory self))"
    by (simp add: render_data_of_def Let_def)
  have e: "render_grade_table = artifact_grade_table"
    by (simp add: render_grade_table_def artifact_grade_table_def)
  show ?thesis
    using render_returns_payload [of download_resource "theory" self h] t l c e by auto
qed

section \<open>Properties of the keyboard\<close>


lemma py_slice_Nil: "py_slice [] i j = []"
  by (simp add: py_slice_def Let_def)












lemma gen_button_window:
  "gen_button data user_id uid page update_button =
     page_window (rows_of (character_buttons data user_id uid)) page
     @ (let nav = last_button_row user_id uid page
                    (page_count (rows_of (character_buttons data user_id uid))) update_button
        in if nav = [] then [] else [nav])"
  by (simp add: gen_button_def Let_def)

lemma str_small: "str_int 0 = ascii ''0''" "str_int 1 = ascii ''1''" "str_int 2 = ascii ''2''"
  by (simp_all add: str_int_def str_nat.simps ascii_def)









lemma no_named_characters:
  "\<forall>c \<in> set (roster data). name c = [] \<Longrightarrow> character_buttons data user_id uid = []"
  by (auto simp: character_buttons_def roster_def filter_empty_conv split: option.split)

lemma nav_no_pages:
  "last_button_row user_id uid page 0 update_button =
     (if 1 < page
      then [button prev_text (get_token user_id uid (str_int (page - 1))),
            button (str_int page @ ascii ''/0'') (get_token user_id uid (ascii ''empty_data''))]
      else [])
     @ (if update_button then [button update_text (update_token user_id uid)] else [])"
  by (simp add: last_button_row_def Let_def str_small ascii_def)

text \<open>
  Claim C7, as the code has it.  For every page number, owner, profile uid and refresh
  setting, a profile with no character, or whose characters all have empty names, has no
  selection button and an empty page window.  The navigation row is left out exactly when
  the page number is at most 1 and the refresh button is not offered; otherwise the
  keyboard is that one row: "previous" and the indicator "page/0" when the page number
  exceeds 1, then the refresh button when it is offered.
\<close>

theorem gen_button_no_characters:
  assumes "\<forall>c \<in> set (roster data). name c = []"
  shows "character_buttons data user_id uid = []
    \<and> page_window (rows_of (character_buttons data user_id uid)) page = []
    \<and> gen_button data user_id uid page update_button =
        (if page \<le> 1 \<and> \<not> update_button then []
         else [(if 1 < page
                then [button prev_text (get_token user_id uid (str_int (page - 1))),
                      button (str_int page @ ascii ''/0'')
                        (get_token user_id uid (ascii ''empty_data''))]
                else [])
               @ (if update_button then [button update_text (update_token user_id uid)]
                  else [])])
    \<and> (gen_button data user_id uid page update_button = []) = (page \<le> 1 \<and> \<not> update_button)"
proof -
  have bs: "character_buttons data user_id uid = []"
    using assms by (rule no_named_characters)
  have rows: "rows_of ([] :: InlineKeyboardButton list) = []"
    by (simp add: rows_of_def)
  have w: "page_window ([] :: InlineKeyboardButton list list) page = []"
    by (simp add: page_window_def py_slice_Nil)
  have pc: "page_count ([] :: InlineKeyboardButton list list) = 0"
    by (simp add: page_count_def)
  show ?thesis
    by (simp add: gen_button_window bs rows w pc nav_no_pages Let_def)
qed

theorem gen_button_no_characters_witness:
  "roster (sample_response []) = []
   \<and> gen_button (sample_response []) 7 100000001 1 False = []
   \<and> roster (sample_response [[], []]) = [sample_character [], sample_character []]
   \<and> name (sample_character []) = []
   \<and> gen_button (sample_response [[], []]) 7 100000001 0 False = []"
proof -
  have r1: "roster (sample_response []) = []"
    and r2: "roster (sample_response [[], []]) = [sample_character [], sample_character []]"
    and n: "name (sample_character []) = []"
    by (simp_all add: roster_def sample_response_def sample_character_def)
  have h1: "\<forall>c \<in> set (roster (sample_response [])). name c = []"
    by (simp add: r1)
  have h2: "\<forall>c \<in> set (roster (sample_response [[], []])). name c = []"
    by (simp add: r2 n)
  from gen_button_no_characters [OF h1, of 7 100000001 1 False]
    gen_button_no_characters [OF h2, of 7 100000001 0 False] r1 r2 n
  show ?thesis
    by simp
qed

theorem gen_button_no_characters_counterexample:
  "gen_button (sample_response []) 7 100000001 1 True =
     [[\<lparr>button_text = update_text, callback_data = ascii ''update_player_card|7|100000001''\<rparr>]]
   \<and> gen_button \<lparr>response_uid = 100000001, characters = (None :: unit CharacterInfo list option)\<rparr>
        7 100000001 2 False =
     [[\<lparr>button_text = prev_text, callback_data = ascii ''get_player_card|7|100000001|1''\<rparr>,
       \<lparr>button_text = ascii ''2/0'',
        callback_data = ascii ''get_player_card|7|100000001|empty_data''\<rparr>]]"
proof -
  have s: "str_int 7 = ascii ''7''" "str_int 100000001 = ascii ''100000001''"
    by (simp_all add: str_int_def str_nat.simps ascii_def)
  show ?thesis
    by (simp add: gen_button_def character_buttons_def sample_response_def rows_of_def
        page_window_def py_slice_Nil page_count_def last_button_row_def Let_def s str_small
        button_def get_token_def update_token_def ascii_def)
qed

section \<open>Properties of the render\<close>

lemma sample_init:
  "RenderTemplate_init 100000001 sample_equipped sample_heap =
     (sample_self, sample_heap @ sample_heap)"
  by (simp add: RenderTemplate_init_def deepcopy_character_def copy_obj_def sample_equipped_def
      sample_heap_def sample_self_def image_objects_def)

lemma sample_cache_images:
  "cache_images sample_download sample_self (sample_heap @ sample_heap) =
     (None, sample_heap @ sample_mirrored)"
  by (simp add: cache_images_def sample_self_def sample_heap_def sample_download_def
      sample_mirrored_def image_objects_def eval_nat_numeral)

lemma sample_render:
  "render sample_download sample_theory sample_self (sample_heap @ sample_heap) =
     (Inr (render_data_of sample_theory sample_self), sample_heap @ sample_mirrored)"
  by (simp add: render_def sample_cache_images)

lemma sample_stats_render:
  "stats_render sample_download sample_user_stats sample_stats_heap =
     (Inr \<lparr>explorations = [1]\<rparr>,
      sample_stats_heap
      @ [Exploration (ascii ''/cache/'' @ ascii ''https://upload/icon.png'')
           (ascii ''/cache/'' @ ascii ''https://upload/cover.png'')])"
  by (simp add: stats_render_def deepcopy_user_stats_def copy_obj_def sample_user_stats_def
      sample_stats_heap_def sample_download_def)

subsection \<open>Deep copies allocate, downloads write to the copy\<close>

lemma copy_obj_fresh:
  assumes "copy_obj memo h a = (a', memo', h')"
    and "\<forall>b \<in> snd ` set memo. n0 \<le> b \<and> b < length h"
    and "n0 \<le> length h"
  shows "take (length h) h' = h \<and> length h \<le> length h' \<and> n0 \<le> a' \<and> a' < length h'
    \<and> (\<forall>b \<in> snd ` set memo'. n0 \<le> b \<and> b < length h')"
proof (cases "map_of memo a")
  case None
  with assms show ?thesis
    by (fastforce simp: copy_obj_def less_Suc_eq)
next
  case (Some b)
  then have "(a, b) \<in> set memo"
    by (rule map_of_SomeD)
  then have "b \<in> snd ` set memo"
    by force
  with assms Some show ?thesis
    by (auto simp: copy_obj_def)
qed

lemma copy_objs_fresh:
  assumes "copy_objs memo h as = (as', memo', h')"
    and "\<forall>b \<in> snd ` set memo. n0 \<le> b \<and> b < length h"
    and "n0 \<le> length h"
  shows "take (length h) h' = h \<and> length h \<le> length h' \<and> length as' = length as
    \<and> (\<forall>b \<in> set as'. n0 \<le> b \<and> b < length h')
    \<and> (\<forall>b \<in> snd ` set memo'. n0 \<le> b \<and> b < length h')"
  using assms
proof (induction as arbitrary: memo h as' memo' h')
  case Nil
  then show ?case by simp
next
  case (Cons a as)
  obtain a1 memo1 h1 where c1: "copy_obj memo h a = (a1, memo1, h1)"
    by (cases "copy_obj memo h a") auto
  obtain as2 memo2 h2 where c2: "copy_objs memo1 h1 as = (as2, memo2, h2)"
    by (cases "copy_objs memo1 h1 as") auto
  from Cons.prems(1) c1 c2 have eq: "as' = a1 # as2" "memo' = memo2" "h' = h2"
    by simp_all
  note f1 = copy_obj_fresh [OF c1 Cons.prems(2) Cons.prems(3)]
  then have m1: "\<forall>b \<in> snd ` set memo1. n0 \<le> b \<and> b < length h1" and n1: "n0 \<le> length h1"
    using Cons.prems(3) by auto
  note f2 = Cons.IH [OF c2 m1 n1]
  have "take (length h) h2 = take (length h) (take (length h1) h2)"
    using f1 by (simp add: min_def)
  also have "\<dots> = h"
    using f1 f2 by simp
  finally have t: "take (length h) h2 = h" .
  have "a1 < length h2"
    using f1 f2 by linarith
  with f1 f2 t show ?case
    unfolding eq by auto
qed

lemma download_icons_frame:
  assumes "\<forall>a \<in> set as. n0 \<le> a" and "b < n0"
  shows "snd (download_icons download_resource as h) ! b = h ! b
    \<and> length (snd (download_icons download_resource as h)) = length h"
  using assms
proof (induction as arbitrary: h)
  case Nil
  then show ?case by simp
next
  case (Cons a as)
  then have ne: "a \<noteq> b"
    by auto
  from Cons have ih: "snd (download_icons download_resource as h') ! b = h' ! b
    \<and> length (snd (download_icons download_resource as h')) = length h'" for h'
    by simp
  show ?case
    using ne by (simp add: ih split: obj.split sum.split)
qed

lemma stats_cache_images_frame:
  assumes "\<forall>a \<in> set as. n0 \<le> a" and "b < n0"
  shows "snd (stats_cache_images download_resource as h) ! b = h ! b
    \<and> length (snd (stats_cache_images download_resource as h)) = length h"
  using assms
proof (induction as arbitrary: h)
  case Nil
  then show ?case by simp
next
  case (Cons a as)
  then have ne: "a \<noteq> b"
    by auto
  from Cons have ih: "snd (stats_cache_images download_resource as h') ! b = h' ! b
    \<and> length (snd (stats_cache_images download_resource as h')) = length h'" for h'
    by simp
  show ?case
    using ne by (simp add: ih split: obj.split sum.split)
qed

lemma take_nth_eq: "take n h' = h \<Longrightarrow> b < length h \<Longrightarrow> h' ! b = h ! b"
  by (metis length_take min_less_iff_conj nth_take)

lemma deepcopy_character_fresh:
  assumes "deepcopy_character h c = (c', h')"
  shows "take (length h) h' = h \<and> length h \<le> length h'
    \<and> (\<forall>a \<in> set (image_objects c'). length h \<le> a)"
proof -
  let ?as = "image_objects c"
  obtain new memo h1 where c: "copy_objs [] h ?as = (new, memo, h1)"
    by (cases "copy_objs [] h ?as") auto
  have f: "take (length h) h1 = h \<and> length h \<le> length h1 \<and> length new = length ?as
    \<and> (\<forall>b \<in> set new. length h \<le> b \<and> b < length h1)
    \<and> (\<forall>b \<in> snd ` set memo. length h \<le> b \<and> b < length h1)"
    by (rule copy_objs_fresh [OF c]) simp_all
  then have ne: "new \<noteq> []"
    by (auto simp: image_objects_def)
  from assms c have h': "h' = h1"
    and c': "c' = c\<lparr>image_banner := hd new,
                 skills := take (length (skills c)) (tl new),
                 constellations := take (length (constellations c)) (drop (1 + length (skills c)) new),
                 equipments := map (\<lambda>(e, a). e\<lparr>detail_icon := a\<rparr>)
                   (zip (equipments c) (drop (1 + length (skills c) + length (constellations c)) new))\<rparr>"
    by (simp_all add: deepcopy_character_def Let_def)
  have b: "image_banner c' \<in> set new"
    using ne by (simp add: c')
  have s: "set (skills c') \<subseteq> set new"
    using ne by (simp add: c') (meson list.set_sel(2) set_take_subset subset_code(1) subset_trans)
  have k: "set (constellations c') \<subseteq> set new"
    by (simp add: c') (meson set_drop_subset set_take_subset subset_trans)
  have "map detail_icon (equipments c') =
      map snd (zip (equipments c) (drop (1 + length (skills c) + length (constellations c)) new))"
    by (simp add: c' case_prod_unfold)
  then have "set (map detail_icon (equipments c')) \<subseteq>
      set (drop (1 + length (skills c) + length (constellations c)) new)"
    by (metis map_snd_zip_take set_take_subset)
  then have e: "set (map detail_icon (equipments c')) \<subseteq> set new"
    by (meson set_drop_subset subset_trans)
  from f b s k e show ?thesis
    unfolding h' image_objects_def by auto
qed

lemma RenderTemplate_frame:
  assumes "RenderTemplate_init uid character h = (self, h1)" and "a < length h"
  shows "h1 ! a = h ! a \<and> snd (render download_resource theory self h1) ! a = h ! a"
proof -
  obtain c' where d: "deepcopy_character h character = (c', h1)" and s: "self_character self = c'"
    using assms(1) by (auto simp: RenderTemplate_init_def split: prod.splits)
  note f = deepcopy_character_fresh [OF d]
  have h1: "h1 ! a = h ! a"
    using f assms(2) by (blast intro: take_nth_eq)
  have "snd (cache_images download_resource self h1) ! a = h1 ! a"
    unfolding cache_images_def s
    using download_icons_frame [of _ "length h" a] f assms(2) by blast
  moreover have "snd (render download_resource theory self h1) =
      snd (cache_images download_resource self h1)"
    by (simp add: render_def split: prod.splits option.splits)
  ultimately show ?thesis
    using h1 by simp
qed

lemma stats_render_frame:
  assumes "a < length h"
  shows "snd (stats_render download_resource user_info h) ! a = h ! a"
proof -
  obtain new memo h1 where c: "copy_objs [] h (explorations user_info) = (new, memo, h1)"
    by (cases "copy_objs [] h (explorations user_info)") auto
  have f: "take (length h) h1 = h \<and> length h \<le> length h1
    \<and> length new = length (explorations user_info)
    \<and> (\<forall>b \<in> set new. length h \<le> b \<and> b < length h1)
    \<and> (\<forall>b \<in> snd ` set memo. length h \<le> b \<and> b < length h1)"
    by (rule copy_objs_fresh [OF c]) simp_all
  have h1: "h1 ! a = h ! a"
    using f assms by (blast intro: take_nth_eq)
  have "snd (stats_cache_images download_resource new h1) ! a = h1 ! a"
    using stats_cache_images_frame [of new "length h" a] f assms by blast
  moreover have "snd (stats_render download_resource user_info h) =
      snd (stats_cache_images download_resource new h1)"
    by (simp add: stats_render_def deepcopy_user_stats_def c split: prod.splits option.splits)
  ultimately show ?thesis
    using h1 by simp
qed


text \<open>
  Claim C10.  A render works on a deep copy: every object that exists when the render
  starts holds the same value when the render ends, whether the downloads succeed or one
  of them raises; in particular the image objects of the character passed in (banner,
  skills, constellations, equipment) keep their urls, and so do the exploration entries of
  the statistics data.
\<close>

theorem render_never_mutates_original:
  assumes "RenderTemplate_init uid character h = (self, h1)"
    and "render download_resource theory self h1 = (result, h2)"
    and "stats_render download_resource user_info g = (stats_result, g2)"
  shows "(\<forall>a < length h. h1 ! a = h ! a \<and> h2 ! a = h ! a)
    \<and> (\<forall>a < length g. g2 ! a = g ! a)
    \<and> ((\<forall>a \<in> set (image_objects character). a < length h) \<longrightarrow>
         map ((!) h2) (image_objects character) = map ((!) h) (image_objects character))
    \<and> ((\<forall>a \<in> set (explorations user_info). a < length g) \<longrightarrow>
         map ((!) g2) (explorations user_info) = map ((!) g) (explorations user_info))"
proof -
  have r: "h1 ! a = h ! a \<and> h2 ! a = h ! a" if "a < length h" for a
    using RenderTemplate_frame [OF assms(1) that, of download_resource "theory"] assms(2) by simp
  have s: "g2 ! a = g ! a" if "a < length g" for a
    using stats_render_frame [OF that, of download_resource user_info] assms(3) by simp
  show ?thesis
    using r s by simp
qed

theorem render_never_mutates_original_witness:
  "RenderTemplate_init 100000001 sample_equipped sample_heap =
     (sample_self, sample_heap @ sample_heap)
   \<and> render sample_download sample_theory sample_self (sample_heap @ sample_heap) =
       (Inr (render_data_of sample_theory sample_self), sample_heap @ sample_mirrored)
   \<and> image_objects sample_equipped = [0, 1, 2, 3, 4]
   \<and> map ((!) (sample_heap @ sample_mirrored)) (image_objects sample_equipped) = sample_heap
   \<and> map ((!) (sample_heap @ sample_mirrored)) (image_objects (self_character sample_self)) =
       sample_mirrored
   \<and> (sample_stats_heap
       @ [Exploration (ascii ''/cache/'' @ ascii ''https://upload/icon.png'')
            (ascii ''/cache/'' @ ascii ''https://upload/cover.png'')]) ! 0 = sample_stats_heap ! 0"
proof -
  note T = render_never_mutates_original [OF sample_init sample_render sample_stats_render]
  have io: "image_objects sample_equipped = [0, 1, 2, 3, 4]"
    by (simp add: image_objects_def sample_equipped_def)
  have wf: "\<forall>a \<in> set (image_objects sample_equipped). a < length sample_heap"
    by (simp add: io sample_heap_def)
  from T wf have m: "map ((!) (sample_heap @ sample_mirrored)) (image_objects sample_equipped) =
      map ((!) sample_heap) (image_objects sample_equipped)"
    by blast
  have o: "map ((!) sample_heap) (image_objects sample_equipped) = sample_heap"
    by (simp add: io sample_heap_def)
  have c: "map ((!) (sample_heap @ sample_mirrored)) (image_objects (self_character sample_self)) =
       sample_mirrored"
    by (simp add: image_objects_def sample_self_def sample_heap_def sample_mirrored_def
        eval_nat_numeral)
  have "0 < length sample_stats_heap"
    by (simp add: sample_stats_heap_def)
  with T have g: "(sample_stats_heap
       @ [Exploration (ascii ''/cache/'' @ ascii ''https://upload/icon.png'')
            (ascii ''/cache/'' @ ascii ''https://upload/cover.png'')]) ! 0 = sample_stats_heap ! 0"
    by blast
  from sample_init sample_render io m o c g show ?thesis
    by simp
qed

theorem render_total_grade_witness:
  "fst (render sample_download sample_theory sample_self (sample_heap @ sample_heap)) =
     Inr (render_data_of sample_theory sample_self)
   \<and> map score (find_artifacts sample_theory sample_self) = [50]
   \<and> map score_label (find_artifacts sample_theory sample_self) = [ascii ''SSS'']
   \<and> artifact_total_score_label (render_data_of sample_theory sample_self) = ascii ''D''"
proof -
  note T = render_total_grade [of sample_theory sample_self sample_download
      "sample_heap @ sample_heap"]
  have r: "fst (render sample_download sample_theory sample_self (sample_heap @ sample_heap)) =
     Inr (render_data_of sample_theory sample_self)"
    by (simp add: sample_render)
  have f: "find_artifacts sample_theory sample_self =
      [Artifact_init \<lparr>equip_type = ARTIFACT, detail_icon = 9, detail_substats = [30, 20]\<rparr> [30, 20]]"
    by (simp add: find_artifacts_def sample_self_def sample_theory_def)
  have s: "map score (find_artifacts sample_theory sample_self) = [50]"
    by (simp add: f score_Artifact_init py_round1_samples)
  have l: "map score_label (find_artifacts sample_theory sample_self) = [ascii ''SSS'']"
    by (simp add: f score_label_Artifact_init py_round1_samples grade_descending)
  from T r have "artifact_total_score_label (render_data_of sample_theory sample_self) =
      grade (py_round1 (sum_list (map score (find_artifacts sample_theory sample_self))) / 5)"
    by blast
  then have d: "artifact_total_score_label (render_data_of sample_theory sample_self) = ascii ''D''"
    by (simp add: s py_round1_samples grade_descending)
  from r s l d show ?thesis
    by simp
qed

section \<open>Properties of the wiki cache\<close>

text \<open>
  Claim C9, evaluated on the code.  An absent key, a failing Redis call and a stored text
  that does not decode all give the empty list, as the claim says.  But when the stored
  text decodes to a non-empty list, \<open>get\<close> decodes every item again outside the
  \<open>try\<close> block, and the exception of the first item that fails leaves \<open>get\<close>: a
  list whose first item is a number raises \<open>TypeError\<close>.
\<close>

theorem WikiCache_get_raises_after_try:
  "(client_get (ascii ''wiki:'' @ key) = Inr (Some raw) \<and> loads raw = Inr (JList (item # items))
      \<and> loads_value loads item = Inl x
    \<longrightarrow> WikiCache_get loads client_get key = Inl x)
   \<and> (client_get (ascii ''wiki:'' @ key) = Inr (Some raw) \<and> loads raw = Inr (JList (JNum n # items))
    \<longrightarrow> WikiCache_get loads client_get key = Inl TypeError)
   \<and> (client_get (ascii ''wiki:'' @ key) = Inl x \<or> client_get (ascii ''wiki:'' @ key) = Inr None
       \<or> (client_get (ascii ''wiki:'' @ key) = Inr (Some raw) \<and> loads raw = Inl x)
    \<longrightarrow> WikiCache_get loads client_get key = Inr (JList []))"
  by (auto simp: WikiCache_get_def Let_def loads_value_def)

theorem WikiCache_get_raises_after_try_witness:
  "sample_client_get (ascii ''wiki:'' @ ascii ''weapons'') = Inr (Some (ascii ''[1]''))
   \<and> sample_loads (ascii ''[1]'') = Inr (JList [JNum 1])
   \<and> WikiCache_get sample_loads sample_client_get (ascii ''weapons'') = Inl TypeError
   \<and> sample_client_get (ascii ''wiki:'' @ ascii ''artifacts'') = Inr None
   \<and> WikiCache_get sample_loads sample_client_get (ascii ''artifacts'') = Inr (JList [])"
proof -
  have c: "sample_client_get (ascii ''wiki:'' @ ascii ''weapons'') = Inr (Some (ascii ''[1]''))"
    and a: "sample_client_get (ascii ''wiki:'' @ ascii ''artifacts'') = Inr None"
    by (simp_all add: sample_client_get_def ascii_def)
  have l: "sample_loads (ascii ''[1]'') = Inr (JList [JNum 1])"
    by (simp add: sample_loads_def)
  note T1 = WikiCache_get_raises_after_try [of sample_client_get "ascii ''weapons''"
      "ascii ''[1]''" sample_loads "JNum 1" "[]" TypeError 1]
  note T2 = WikiCache_get_raises_after_try [of sample_client_get "ascii ''artifacts''"
      "ascii ''[1]''" sample_loads "JNum 1" "[]" TypeError 1]
  from T1 c l have r: "WikiCache_get sample_loads sample_client_get (ascii ''weapons'') = Inl TypeError"
    by blast
  from T2 a have m: "WikiCache_get sample_loads sample_client_get (ascii ''artifacts'') = Inr (JList [])"
    by blast
  from c l r a m show ?thesis
    by simp
qed

section \<open>Properties of the remote fetch\<close>



lemma update_enka_data_result:
  "fst (update_enka_data e w uid) =
     (case fst (update_enka_data_try e w uid) of
        Inr response \<Rightarrow> Inr (Inr response)
      | Inl x \<Rightarrow> (case except_message x of Some error \<Rightarrow> Inr (Inl error) | None \<Rightarrow> Inl x))"
  by (simp add: update_enka_data_def split: prod.splits sum.splits option.splits)








lemma handled_messages_distinct: "distinct (map except_message handled_exceptions)"
  by (simp add: handled_exceptions_def except_message_def ascii_def retry_later_def)

lemma unhandled_no_message: "x \<notin> set handled_exceptions \<Longrightarrow> except_message x = None"
  by (simp add: handled_exceptions_def except_message_def)

lemma handled_has_message: "x \<in> set handled_exceptions \<Longrightarrow> \<exists>error. except_message x = Some error"
  by (auto simp: handled_exceptions_def except_message_def)

text \<open>
  Claim C2, as the code has it.  An exception of one of the eight handled classes is
  replaced by the fixed message of its class, returned in place of the response (so a
  fault of the remote request with such a class gives its message); the eight messages are
  pairwise different; a response is returned as it is.  An exception of any other class has
  no clause and leaves \<open>_update_enka_data\<close> as it was raised.
\<close>

theorem fetch_failures_mapped:
  "(\<forall>response. fst (update_enka_data_try e w uid) = Inr response \<longrightarrow>
      fst (update_enka_data e w uid) = Inr (Inr response))
   \<and> (\<forall>x. fst (update_enka_data_try e w uid) = Inl x \<and> x \<in> set handled_exceptions \<longrightarrow>
        (\<exists>error. except_message x = Some error
           \<and> fst (update_enka_data e w uid) = Inr (Inl error)))
   \<and> (\<forall>x. fst (update_enka_data_try e w uid) = Inl x \<and> x \<notin> set handled_exceptions \<longrightarrow>
        fst (update_enka_data e w uid) = Inl x)
   \<and> (\<forall>x. RedisCache_get e w uid = Inr None \<and> fetch_user_by_uid e uid = Inl x
          \<and> x \<in> set handled_exceptions \<longrightarrow>
        (\<exists>error. except_message x = Some error
           \<and> update_enka_data e w uid =
               (Inr (Inl error), w\<lparr>trace := trace w @ [RemoteFetch uid]\<rparr>)))
   \<and> length handled_exceptions = 8
   \<and> distinct (map except_message handled_exceptions)
   \<and> (\<forall>x. (x \<in> set handled_exceptions) = (except_message x \<noteq> None))"
  apply (intro conjI allI impI)
  subgoal by (simp add: update_enka_data_result)
  subgoal for x using handled_has_message [of x] by (auto simp: update_enka_data_result)
  subgoal by (simp add: update_enka_data_result unhandled_no_message)
  subgoal for x using handled_has_message [of x]
    by (auto simp: update_enka_data_def update_enka_data_try_def Let_def)
  subgoal by (simp add: handled_exceptions_def)
  subgoal by (rule handled_messages_distinct)
  subgoal for x using handled_has_message [of x] unhandled_no_message [of x]
    by (cases "x \<in> set handled_exceptions") auto
  done

theorem fetch_failures_mapped_witness:
  "RedisCache_get (sample_env\<lparr>fetch_user_by_uid := \<lambda>uid. Inl EnkaServerRateLimit\<rparr>)
       sample_world 100000001 = Inr None
   \<and> EnkaServerRateLimit \<in> set handled_exceptions
   \<and> update_enka_data (sample_env\<lparr>fetch_user_by_uid := \<lambda>uid. Inl EnkaServerRateLimit\<rparr>)
         sample_world 100000001 =
       (Inr (Inl (ascii ''Enka.Network '' @ [24050, 23545, 27492] @ ascii ''API''
                  @ [36827, 34892, 36895, 29575, 38480, 21046] @ retry_later)),
        sample_world\<lparr>trace := trace sample_world @ [RemoteFetch 100000001]\<rparr>)"
proof -
  let ?e = "sample_env\<lparr>fetch_user_by_uid := \<lambda>uid. Inl EnkaServerRateLimit\<rparr>"
  have g: "RedisCache_get ?e sample_world 100000001 = Inr None"
    by (simp add: RedisCache_get_def cache_lookup_def sample_env_def sample_world_def)
  have f: "fetch_user_by_uid ?e 100000001 = Inl EnkaServerRateLimit"
    by simp
  have h: "EnkaServerRateLimit \<in> set handled_exceptions"
    by (simp add: handled_exceptions_def)
  have m: "except_message EnkaServerRateLimit =
      Some (ascii ''Enka.Network '' @ [24050, 23545, 27492] @ ascii ''API''
            @ [36827, 34892, 36895, 29575, 38480, 21046] @ retry_later)"
    by (simp add: except_message_def)
  from fetch_failures_mapped [of ?e sample_world 100000001] g f h
  obtain error where "except_message EnkaServerRateLimit = Some error"
    and "update_enka_data ?e sample_world 100000001 =
      (Inr (Inl error), sample_world\<lparr>trace := trace sample_world @ [RemoteFetch 100000001]\<rparr>)"
    by blast
  with m g h show ?thesis
    by simp
qed

theorem fetch_raw_exception_counterexample:
  "update_enka_data (sample_env\<lparr>decode_loads := \<lambda>raw. Inl ValueError\<rparr>) sample_world 100000001 =
     (Inl ValueError, sample_world\<lparr>trace := [RemoteFetch 100000001]\<rparr>)
   \<and> ValueError \<notin> set handled_exceptions"
  by (simp add: update_enka_data_def update_enka_data_try_def RedisCache_get_def cache_lookup_def
      sample_env_def sample_world_def except_message_def handled_exceptions_def Let_def)

section \<open>Properties of the callback handlers\<close>

lemma str_nat_digits: "str_nat n \<noteq> [] \<and> list_all is_digit (str_nat n)"
proof (induction n rule: str_nat.induct)
  case (1 n)
  show ?case
  proof (cases "n < 10")
    case True
    then show ?thesis
      by (subst str_nat.simps, subst str_nat.simps) (simp add: is_digit_def)
  next
    case False
    have "n mod 10 < 10"
      by simp
    then have "is_digit (48 + n mod 10)"
      unfolding is_digit_def by linarith
    with False 1 show ?thesis
      by (subst str_nat.simps, subst str_nat.simps) simp
  qed
qed

lemma nat_of_digits_snoc: "nat_of_digits (ds @ [c]) = 10 * nat_of_digits ds + (c - 48)"
  by (simp add: nat_of_digits_def)

lemma nat_of_digits_str_nat: "nat_of_digits (str_nat n) = n"
proof (induction n rule: str_nat.induct)
  case (1 n)
  show ?case
  proof (cases "n < 10")
    case True
    then show ?thesis
      by (subst str_nat.simps) (simp add: nat_of_digits_def)
  next
    case False
    with 1 show ?thesis
      by (subst str_nat.simps) (simp add: nat_of_digits_snoc)
  qed
qed

lemma py_isdigit_str_nat: "py_isdigit (str_nat n)"
  by (simp add: py_isdigit_def str_nat_digits)

lemma hd_str_nat: "48 \<le> hd (str_nat n)"
proof -
  have "is_digit (hd (str_nat n))"
    using str_nat_digits [of n] by (cases "str_nat n") simp_all
  then show ?thesis
    by (simp add: is_digit_def)
qed

lemma py_int_str_int: "py_int (str_int i) = Inr i"
proof (cases "i < 0")
  case True
  then show ?thesis
    by (simp add: py_int_def str_int_def py_isdigit_str_nat nat_of_digits_str_nat)
next
  case False
  have "hd (str_nat (nat i)) \<noteq> 45" "hd (str_nat (nat i)) \<noteq> 43"
    using hd_str_nat [of "nat i"] by linarith+
  with False show ?thesis
    by (simp add: py_int_def str_int_def py_isdigit_str_nat nat_of_digits_str_nat)
qed

lemma no_bar_str_int: "124 \<notin> set (str_int i)"
proof -
  have "124 \<notin> set (str_nat n)" for n
    using str_nat_digits [of n] by (auto simp: list_all_iff is_digit_def)
  then show ?thesis
    by (simp add: str_int_def)
qed

lemma split_on_no_sep: "sep \<notin> set a \<Longrightarrow> split_on sep cur a = [rev cur @ a]"
  by (induction a arbitrary: cur) auto

lemma split_on_sep:
  "sep \<notin> set a \<Longrightarrow> split_on sep cur (a @ sep # rest) = (rev cur @ a) # split_on sep [] rest"
  by (induction a arbitrary: cur) auto

lemma split_on_nonempty: "split_on sep cur s \<noteq> []"
  by (induction s arbitrary: cur) auto

lemma split_bar_field:
  "124 \<notin> set a \<Longrightarrow> split_bar (a @ 124 # rest) = a # split_bar rest"
  by (simp add: split_bar_def split_on_sep)

lemma split_bar_last: "124 \<notin> set a \<Longrightarrow> split_bar a = [a]"
  by (simp add: split_bar_def split_on_no_sep)

lemma update_token_fields:
  "split_bar (update_token user_id uid) =
     [ascii ''update_player_card'', str_int user_id, str_int uid]"
proof -
  have t: "ascii ''update_player_card|'' = ascii ''update_player_card'' @ [124]"
    and b: "ascii ''|'' = [124]"
    and n: "124 \<notin> set (ascii ''update_player_card'')"
    by (simp_all add: ascii_def)
  show ?thesis
    by (simp add: update_token_def t b split_bar_field split_bar_last n no_bar_str_int)
qed

lemma get_token_fields:
  "split_bar (get_token user_id uid selector) =
     ascii ''get_player_card'' # str_int user_id # str_int uid # split_bar selector"
proof -
  have t: "ascii ''get_player_card|'' = ascii ''get_player_card'' @ [124]"
    and b: "ascii ''|'' = [124]"
    and n: "124 \<notin> set (ascii ''get_player_card'')"
    by (simp_all add: ascii_def)
  show ?thesis
    by (simp add: get_token_def t b split_bar_field n no_bar_str_int)
qed

lemma update_callback_token:
  "update_callback (update_token user_id uid) = Inr (user_id, uid)"
  by (simp add: update_callback_def update_token_fields py_index_def py_int_str_int)

lemma get_callback_token:
  "get_callback (get_token user_id uid selector) =
     Inr (hd (split_bar selector), user_id, uid)"
proof -
  obtain p ps where s: "split_bar selector = p # ps"
    using split_on_nonempty [of 124 "[]" selector] by (cases "split_bar selector") (auto simp: split_bar_def)
  show ?thesis
    by (simp add: get_callback_def get_token_fields py_index_def py_int_str_int s)
qed

text \<open>
  Claim C6.  When the token of a button encodes the owner and another user presses it,
  both callbacks end normally after a single effect, the alert with the mismatch notice.
  The cache, the history store and the clock are as before, and the trace gains no remote
  request, no store write, no message edit or deletion and no new keyboard.
\<close>

theorem callbacks_reject_other_users:
  assumes "acting \<noteq> owner"
  shows "update_player_card e user_mismatch w
           \<lparr>acting_user = acting, callback_query_data = update_token owner uid\<rparr> =
         (None, w\<lparr>trace := trace w @ [Answer (not_your_button @ user_mismatch) True]\<rparr>)
    \<and> get_player_cards e user_mismatch w
           \<lparr>acting_user = acting, callback_query_data = get_token owner uid selector\<rparr> =
         (None, w\<lparr>trace := trace w @ [Answer (not_your_button @ user_mismatch) True]\<rparr>)"
  using assms
  by (simp add: update_player_card_def get_player_cards_def update_callback_token
      get_callback_token emit_def)


lemma sample_owner_update:
  "update_player_card sample_env (ascii ''notice'') sample_world
     \<lparr>acting_user = 7, callback_query_data = update_token 7 100000001\<rparr> =
   (None,
    sample_fetched
      \<lparr>trace :=
         [ReplyChatAction TYPING, Answer fetching_text False, RemoteFetch 100000001,
          HistoryWrite 100000001 (ascii ''{}''), CacheWrite 100000001 (ascii ''{}'') 60,
          EditMedia HolderCard
            (Some (gen_button (sample_response ten_names) 7 100000001 1 False))]\<rparr>)"
proof -
  have c: "characters (sample_response ten_names) = Some (map sample_character ten_names)"
    by (simp add: sample_response_def)
  show ?thesis
    by (simp add: update_player_card_def update_callback_token RedisCache_ttl_def emit_def Let_def
      update_enka_data_def update_enka_data_try_def RedisCache_get_def RedisCache_set_def
      merge_info_def cache_lookup_def c sample_env_def sample_world_def sample_fetched_def)
qed

theorem callbacks_reject_other_users_witness:
  "(8 :: int) \<noteq> 7
   \<and> update_player_card sample_env (ascii ''notice'') sample_world
       \<lparr>acting_user = 8, callback_query_data = update_token 7 100000001\<rparr> =
     (None, sample_world\<lparr>trace := trace sample_world
                                   @ [Answer (not_your_button @ ascii ''notice'') True]\<rparr>)
   \<and> get_player_cards sample_env (ascii ''notice'') sample_world
       \<lparr>acting_user = 8, callback_query_data = get_token 7 100000001 (ascii ''2'')\<rparr> =
     (None, sample_world\<lparr>trace := trace sample_world
                                   @ [Answer (not_your_button @ ascii ''notice'') True]\<rparr>)
   \<and> update_token 7 100000001 = ascii ''update_player_card|7|100000001''
   \<and> get_token 7 100000001 (ascii ''2'') = ascii ''get_player_card|7|100000001|2''"
proof -
  have n: "(8 :: int) \<noteq> 7"
    by simp
  have t: "update_token 7 100000001 = ascii ''update_player_card|7|100000001''"
    "get_token 7 100000001 (ascii ''2'') = ascii ''get_player_card|7|100000001|2''"
    by (simp_all add: update_token_def get_token_def str_int_def str_nat.simps ascii_def)
  from callbacks_reject_other_users [OF n, of sample_env "ascii ''notice''" sample_world
      100000001 "ascii ''2''"] n t
  show ?thesis
    by simp
qed

end
